theory Spec2Isabelle
  imports Main "HOL-Library.Word"
begin

section \<open>JavaScript values\<close>

text \<open>
  The server (\<^verbatim>\<open>src/index.ts\<close>) moves JSON bodies, bind parameters and result rows
  around as plain JavaScript values. \<open>JNum\<close> holds the integral numbers from \<open>- 2 ^ 53\<close> up
  to \<open>2 ^ 53 - 1\<close>, read with \<open>sint\<close>: a number holds each of them exactly and \<^verbatim>\<open>String\<close>
  writes it in plain decimal. \<open>JBigInt\<close> is a \<^verbatim>\<open>BigInt\<close>, which is what makes
  \<^verbatim>\<open>JSON.stringify\<close> throw. \<open>JNaN\<close> is what \<^verbatim>\<open>parseInt\<close> gives for a non-numeric text, and
  \<open>JOther s\<close> stands for a value of any further kind (a \<^verbatim>\<open>Date\<close>, a fractional or a larger
  number) whose \<^verbatim>\<open>String(v)\<close> is \<open>s\<close>, whose \<^verbatim>\<open>typeof\<close> is not \<^verbatim>\<open>'string'\<close> and which
  \<^verbatim>\<open>JSON.stringify\<close> accepts. An object keeps its properties in
  the order \<^verbatim>\<open>Object.values\<close> lists them; its keys are distinct, as they are in any
  object that \<^verbatim>\<open>JSON.parse\<close> or the engine builds.
\<close>

datatype jsval =
    JUndefined
  | JNull
  | JBool bool
  | JNum "54 word"
  | JBigInt int
  | JNaN
  | JStr string
  | JArr "jsval list"
  | JObj "(string \<times> jsval) list"
  | JOther string

type_synonym row = "(string \<times> jsval) list"

definition NL :: string where
  "NL = [CHR 0x0A]"

definition SQ :: string where
  "SQ = [CHR 0x27]"

text \<open>Property access \<^verbatim>\<open>o.k\<close>: a missing property reads as \<^verbatim>\<open>undefined\<close>.\<close>

definition get_prop :: "row \<Rightarrow> string \<Rightarrow> jsval" where
  "get_prop kvs k = (case map_of kvs k of None \<Rightarrow> JUndefined | Some v \<Rightarrow> v)"

text \<open>Property access on an arbitrary value, as destructuring does after validation.\<close>

fun get :: "jsval \<Rightarrow> string \<Rightarrow> jsval" where
  "get (JObj kvs) k = get_prop kvs k"
| "get v k = JUndefined"

fun digit :: "nat \<Rightarrow> char" where
  "digit n = char_of (48 + n)"

fun show_nat :: "nat \<Rightarrow> string" where
  "show_nat n = (if n < 10 then [digit n] else show_nat (n div 10) @ [digit (n mod 10)])"

declare show_nat.simps [simp del]

definition show_int :: "int \<Rightarrow> string" where
  "show_int i = (if i < 0 then ''-'' @ show_nat (nat (- i)) else show_nat (nat i))"

text \<open>\<^verbatim>\<open>Array.prototype.join\<close> on texts.\<close>

fun join :: "string \<Rightarrow> string list \<Rightarrow> string" where
  "join sep [] = []"
| "join sep [x] = x"
| "join sep (x # y # ys) = x @ sep @ join sep (y # ys)"

text \<open>
  \<^verbatim>\<open>String(v)\<close>, which is also what a template literal and \<^verbatim>\<open>+\<close> with a text apply.
  An array is joined with commas, and there \<^verbatim>\<open>null\<close> and \<^verbatim>\<open>undefined\<close> elements
  give the empty text.
\<close>

fun to_string :: "jsval \<Rightarrow> string" where
  "to_string JUndefined = ''undefined''"
| "to_string JNull = ''null''"
| "to_string (JBool b) = (if b then ''true'' else ''false'')"
| "to_string (JNum w) = show_int (sint w)"
| "to_string (JBigInt i) = show_int i"
| "to_string JNaN = ''NaN''"
| "to_string (JStr s) = s"
| "to_string (JArr vs) =
     join '','' (map (\<lambda>v. if v = JUndefined \<or> v = JNull then [] else to_string v) vs)"
| "to_string (JObj kvs) = ''[object Object]''"
| "to_string (JOther s) = s"

text \<open>
  \<^verbatim>\<open>values.join(sep)\<close> on an array of values: every element is converted with
  \<^verbatim>\<open>String\<close>, except \<^verbatim>\<open>null\<close> and \<^verbatim>\<open>undefined\<close>, which are rendered as the empty text.
\<close>

definition js_join :: "string \<Rightarrow> jsval list \<Rightarrow> string" where
  "js_join sep vs =
     join sep (map (\<lambda>v. if v = JUndefined \<or> v = JNull then [] else to_string v) vs)"

text \<open>
  \<^verbatim>\<open>JSON.stringify\<close>, which \<^verbatim>\<open>res.json\<close> applies to its argument, throws a \<^verbatim>\<open>TypeError\<close> on
  a value that holds a \<^verbatim>\<open>BigInt\<close> anywhere inside.
\<close>

fun unserialisable :: "jsval \<Rightarrow> bool" where
  "unserialisable (JBigInt i) = True"
| "unserialisable (JArr vs) = list_ex unserialisable vs"
| "unserialisable (JObj kvs) = list_ex unserialisable (map snd kvs)"
| "unserialisable v = False"

definition unserialisable_rows :: "row list \<Rightarrow> bool" where
  "unserialisable_rows rs = list_ex (\<lambda>r. list_ex unserialisable (map snd r)) rs"

section \<open>Request validation (zod)\<close>

text \<open>
  The schemas of the source are built from \<^verbatim>\<open>z.object\<close>, \<^verbatim>\<open>z.array\<close>, \<^verbatim>\<open>z.string\<close>
  (with \<^verbatim>\<open>.min\<close> and \<^verbatim>\<open>.email\<close>), \<^verbatim>\<open>z.any\<close> and \<^verbatim>\<open>.optional\<close>. \<open>parse\<close> follows
  \<^verbatim>\<open>schema.parse\<close>: it returns the validated value, with unknown object keys stripped, or
  the issues of the \<^verbatim>\<open>ZodError\<close> it throws. The regular expression behind \<^verbatim>\<open>.email()\<close>
  belongs to the library and is a parameter.
\<close>

datatype pathseg = Key string | Idx nat

datatype issue_code = invalid_type | too_small | invalid_string

type_synonym zod_issue = "pathseg list \<times> issue_code"

datatype check = Min nat | Email

datatype schema =
    ZString "check list"
  | ZAny
  | ZArray schema
  | ZObject "(string \<times> schema) list"
  | ZOptional schema

fun run_check :: "(string \<Rightarrow> bool) \<Rightarrow> string \<Rightarrow> check \<Rightarrow> issue_code list" where
  "run_check re s (Min n) = (if length s < n then [too_small] else [])"
| "run_check re s Email = (if re s then [] else [invalid_string])"

fun is_ok :: "'e + 'a \<Rightarrow> bool" where
  "is_ok (Inr v) = True"
| "is_ok (Inl e) = False"

fun issues_at :: "pathseg \<Rightarrow> zod_issue list + jsval \<Rightarrow> zod_issue list" where
  "issues_at seg (Inl es) = map (\<lambda>(p, c). (seg # p, c)) es"
| "issues_at seg (Inr v) = []"

fun value_of :: "zod_issue list + jsval \<Rightarrow> jsval" where
  "value_of (Inr v) = v"
| "value_of (Inl es) = JUndefined"

definition collect_arr :: "(zod_issue list + jsval) list \<Rightarrow> zod_issue list + jsval" where
  "collect_arr rs =
     (if list_all is_ok rs then Inr (JArr (map value_of rs))
      else Inl (concat (map (\<lambda>(i, r). issues_at (Idx i) r) (enumerate 0 rs))))"

definition collect_obj :: "(string \<times> (zod_issue list + jsval)) list \<Rightarrow> zod_issue list + jsval" where
  "collect_obj krs =
     (if list_all (\<lambda>(k, r). is_ok r) krs
      then Inr (JObj (filter (\<lambda>(k, v). v \<noteq> JUndefined) (map (\<lambda>(k, r). (k, value_of r)) krs)))
      else Inl (concat (map (\<lambda>(k, r). issues_at (Key k) r) krs)))"

fun parse :: "(string \<Rightarrow> bool) \<Rightarrow> schema \<Rightarrow> jsval \<Rightarrow> zod_issue list + jsval" where
  "parse re (ZString cs) v =
     (case v of
        JStr s \<Rightarrow>
          (let errs = concat (map (run_check re s) cs)
           in if errs = [] then Inr (JStr s) else Inl (map (\<lambda>c. ([], c)) errs))
      | _ \<Rightarrow> Inl [([], invalid_type)])"
| "parse re ZAny v = Inr v"
| "parse re (ZArray sch) v =
     (case v of
        JArr vs \<Rightarrow> collect_arr (map (parse re sch) vs)
      | _ \<Rightarrow> Inl [([], invalid_type)])"
| "parse re (ZObject shape) v =
     (case v of
        JObj kvs \<Rightarrow> collect_obj (map (\<lambda>(k, sch). (k, parse re sch (get_prop kvs k))) shape)
      | _ \<Rightarrow> Inl [([], invalid_type)])"
| "parse re (ZOptional sch) v = (if v = JUndefined then Inr JUndefined else parse re sch v)"


section \<open>The database session\<close>

text \<open>
  The embedded engine is an opaque dependency, reached only through \<^verbatim>\<open>db.query(sql, params)\<close>
  and \<^verbatim>\<open>db.exec(sql)\<close>. Both are parameters here: a call maps the store to a result, which
  is the rows or the error the promise rejects with, and to the store after it. Also
  parameters: the library's e-mail test, \<^verbatim>\<open>parseInt\<close>, the resolved data directory, and
  \<^verbatim>\<open>req.body\<close> as the body parser leaves it when it parsed nothing.

  What a handler can catch: the \<^verbatim>\<open>ZodError\<close> of a failed parse, the error a call to the
  engine rejects with (its message and, when it has one, its \<^verbatim>\<open>code\<close> text), and the
  \<^verbatim>\<open>TypeError\<close> of \<^verbatim>\<open>res.json\<close> on a payload it cannot serialise.
\<close>

datatype thrown =
    ZodError "zod_issue list"
  | EngineError string "string option"
  | TypeError string

text \<open>
  \<^verbatim>\<open>error.message\<close> and \<^verbatim>\<open>error.code\<close>. The message of a \<^verbatim>\<open>ZodError\<close> is the library's
  rendering of its issue list; the list itself stands for it.
\<close>

datatype msg = Text string | ZodMessage "zod_issue list"

fun message :: "thrown \<Rightarrow> msg" where
  "message (ZodError errs) = ZodMessage errs"
| "message (EngineError m c) = Text m"
| "message (TypeError m) = Text m"

fun code :: "thrown \<Rightarrow> jsval" where
  "code (ZodError errs) = JUndefined"
| "code (EngineError m c) = (case c of None \<Rightarrow> JUndefined | Some t \<Rightarrow> JStr t)"
| "code (TypeError m) = JUndefined"

text \<open>
  The result of \<^verbatim>\<open>db.query\<close>: \<open>rows\<close> is \<^verbatim>\<open>result.rows\<close> and \<open>result_fields\<close> is
  \<^verbatim>\<open>result.fields\<close>, each field a name with its \<^verbatim>\<open>dataTypeID\<close>; \<open>None\<close> when the result has
  no \<^verbatim>\<open>fields\<close>.
\<close>

record qresult =
  rows :: "row list"
  result_fields :: "(string \<times> int) list option"

record 'db env =
  db_query :: "'db \<Rightarrow> string \<Rightarrow> jsval list \<Rightarrow> (thrown + qresult) \<times> 'db"
  db_exec :: "'db \<Rightarrow> string \<Rightarrow> (thrown + unit) \<times> 'db"
  email_re :: "string \<Rightarrow> bool"
  parseInt :: "string \<Rightarrow> jsval"
  dataDir :: string
  unparsed_body :: jsval

text \<open>
  Every call that reaches the session is recorded with its outcome, so that a statement
  such as ``no database call is attempted'' is a statement about the trace.
\<close>

datatype dbcall =
    QueryCall string "jsval list" "thrown + qresult"
  | ExecCall string "thrown + unit"

record 'db session =
  store :: 'db
  trace :: "dbcall list"

definition query :: "'db env \<Rightarrow> 'db session \<Rightarrow> string \<Rightarrow> jsval list \<Rightarrow> (thrown + qresult) \<times> 'db session" where
  "query E s sql params =
     (case db_query E (store s) sql params of
        (r, d) \<Rightarrow> (r, \<lparr>store = d, trace = trace s @ [QueryCall sql params r]\<rparr>))"

definition exec :: "'db env \<Rightarrow> 'db session \<Rightarrow> string \<Rightarrow> (thrown + unit) \<times> 'db session" where
  "exec E s sql =
     (case db_exec E (store s) sql of
        (r, d) \<Rightarrow> (r, \<lparr>store = d, trace = trace s @ [ExecCall sql r]\<rparr>))"

section \<open>Responses\<close>

datatype body =
    HealthBody string string string string
  | QueryOk "row list" nat "(string \<times> int) list option"
  | TransactionOk "(row list \<times> nat) list"
  | TablesOk "jsval list"
  | SchemaOk string "row list"
  | StatsOk jsval "row list"
  | ImportOk string
  | UsersOk "row list"
  | UserOk jsval
  | UserDeleted string jsval
  | Failure msg "jsval option"
  | SqlDump string
  | ErrorPage

record response =
  status :: nat
  body :: body

text \<open>The \<^verbatim>\<open>user\<close> property of a response envelope, where it has one.\<close>

fun user_field :: "body \<Rightarrow> jsval option" where
  "user_field (UserOk u) = Some u"
| "user_field (UserDeleted m u) = Some u"
| "user_field b = None"


text \<open>\<^verbatim>\<open>res.status(n).json({ success: false, error: error.message })\<close>\<close>

definition failure :: "nat \<Rightarrow> thrown \<Rightarrow> response" where
  "failure n e = \<lparr>status = n, body = Failure (message e) None\<rparr>"

text \<open>
  \<^verbatim>\<open>res.status(n).json(payload)\<close> inside a \<^verbatim>\<open>try\<close>: the payload is serialised before
  anything is sent, so a payload that holds a \<^verbatim>\<open>BigInt\<close> throws and the \<^verbatim>\<open>catch\<close> of the
  handler answers instead. The payloads of the \<^verbatim>\<open>catch\<close> blocks hold texts only.
\<close>

fun unserialisable_body :: "body \<Rightarrow> bool" where
  "unserialisable_body (QueryOk rs n fs) = unserialisable_rows rs"
| "unserialisable_body (TransactionOk results) = list_ex (\<lambda>(rs, n). unserialisable_rows rs) results"
| "unserialisable_body (TablesOk vs) = list_ex unserialisable vs"
| "unserialisable_body (SchemaOk t rs) = unserialisable_rows rs"
| "unserialisable_body (StatsOk v rs) = (unserialisable v \<or> unserialisable_rows rs)"
| "unserialisable_body (UsersOk rs) = unserialisable_rows rs"
| "unserialisable_body (UserOk u) = unserialisable u"
| "unserialisable_body (UserDeleted m u) = unserialisable u"
| "unserialisable_body b = False"

definition res_json :: "nat \<Rightarrow> body \<Rightarrow> thrown + response" where
  "res_json n b =
     (if unserialisable_body b then Inl (TypeError ''Do not know how to serialize a BigInt'')
      else Inr \<lparr>status = n, body = b\<rparr>)"

text \<open>\<^verbatim>\<open>result.rows[0]\<close>\<close>

fun first_row :: "row list \<Rightarrow> jsval" where
  "first_row [] = JUndefined"
| "first_row (r # rs) = JObj r"

text \<open>
  The text of a validated string property, and \<^verbatim>\<open>params = []\<close>, the destructuring
  default that replaces \<^verbatim>\<open>undefined\<close>. After validation the first is a \<open>JStr\<close> and the
  second \<open>JUndefined\<close> or a \<open>JArr\<close>; the last equations are never reached.
\<close>

fun text_of :: "jsval \<Rightarrow> string" where
  "text_of (JStr s) = s"
| "text_of v = []"

fun params_of :: "jsval \<Rightarrow> jsval list" where
  "params_of JUndefined = []"
| "params_of (JArr ps) = ps"
| "params_of v = []"

fun elements_of :: "jsval \<Rightarrow> jsval list" where
  "elements_of (JArr vs) = vs"
| "elements_of v = []"

section \<open>Route handlers\<close>

subsection \<open>GET /health\<close>

definition get_health :: "'db env \<Rightarrow> 'db session \<Rightarrow> string \<Rightarrow> response \<times> 'db session" where
  "get_health E s now =
     (\<lparr>status = 200, body = HealthBody ''healthy'' ''connected'' (dataDir E) now\<rparr>, s)"

subsection \<open>POST /query\<close>

definition querySchema :: schema where
  "querySchema = ZObject [(''query'', ZString [Min 1]), (''params'', ZOptional (ZArray ZAny))]"

definition post_query :: "'db env \<Rightarrow> 'db session \<Rightarrow> jsval \<Rightarrow> response \<times> 'db session" where
  "post_query E s req_body =
     (case parse (email_re E) querySchema req_body of
        Inl errs \<Rightarrow>
          (\<lparr>status = 400, body = Failure (message (ZodError errs)) (Some (code (ZodError errs)))\<rparr>, s)
      | Inr p \<Rightarrow>
          (case query E s (text_of (get p ''query'')) (params_of (get p ''params'')) of
             (Inl e, s1) \<Rightarrow> (\<lparr>status = 400, body = Failure (message e) (Some (code e))\<rparr>, s1)
           | (Inr result, s1) \<Rightarrow>
               (case res_json 200
                       (QueryOk (rows result) (length (rows result)) (result_fields result)) of
                  Inl e \<Rightarrow> (\<lparr>status = 400, body = Failure (message e) (Some (code e))\<rparr>, s1)
                | Inr res \<Rightarrow> (res, s1))))"

subsection \<open>POST /transaction\<close>

definition transactionSchema :: schema where
  "transactionSchema =
     ZObject [(''queries'',
       ZArray (ZObject [(''query'', ZString []), (''params'', ZOptional (ZArray ZAny))]))]"

text \<open>The \<^verbatim>\<open>for ... of queries\<close> loop; the first rejected statement ends it.\<close>

fun run_queries ::
  "'db env \<Rightarrow> 'db session \<Rightarrow> jsval list \<Rightarrow> (row list \<times> nat) list
    \<Rightarrow> (thrown + (row list \<times> nat) list) \<times> 'db session" where
  "run_queries E s [] results = (Inr results, s)"
| "run_queries E s (q # qs) results =
     (case query E s (text_of (get q ''query'')) (params_of (get q ''params'')) of
        (Inl e, s1) \<Rightarrow> (Inl e, s1)
      | (Inr result, s1) \<Rightarrow>
          run_queries E s1 qs (results @ [(rows result, length (rows result))]))"

text \<open>
  The \<^verbatim>\<open>catch\<close> block: \<^verbatim>\<open>await db.exec('ROLLBACK').catch(() => { })\<close>, whose outcome is
  dropped, then the 400 answer with the message of the error that was caught.
\<close>

definition rollback_and_fail :: "'db env \<Rightarrow> 'db session \<Rightarrow> thrown \<Rightarrow> response \<times> 'db session" where
  "rollback_and_fail E s e =
     (case exec E s ''ROLLBACK'' of (r, s1) \<Rightarrow> (failure 400 e, s1))"

definition post_transaction :: "'db env \<Rightarrow> 'db session \<Rightarrow> jsval \<Rightarrow> response \<times> 'db session" where
  "post_transaction E s req_body =
     (case parse (email_re E) transactionSchema req_body of
        Inl errs \<Rightarrow> rollback_and_fail E s (ZodError errs)
      | Inr p \<Rightarrow>
          (case exec E s ''BEGIN'' of
             (Inl e, s1) \<Rightarrow> rollback_and_fail E s1 e
           | (Inr u, s1) \<Rightarrow>
               (case run_queries E s1 (elements_of (get p ''queries'')) [] of
                  (Inl e, s2) \<Rightarrow> rollback_and_fail E s2 e
                | (Inr results, s2) \<Rightarrow>
                    (case exec E s2 ''COMMIT'' of
                       (Inl e, s3) \<Rightarrow> rollback_and_fail E s3 e
                     | (Inr u, s3) \<Rightarrow>
                         (case res_json 200 (TransactionOk results) of
                            Inl e \<Rightarrow> rollback_and_fail E s3 e
                          | Inr res \<Rightarrow> (res, s3))))))"

subsection \<open>POST /import\<close>

definition importSchema :: schema where
  "importSchema = ZObject [(''sql'', ZString [Min 1])]"

definition post_import :: "'db env \<Rightarrow> 'db session \<Rightarrow> jsval \<Rightarrow> response \<times> 'db session" where
  "post_import E s req_body =
     (case parse (email_re E) importSchema req_body of
        Inl errs \<Rightarrow> (failure 400 (ZodError errs), s)
      | Inr p \<Rightarrow>
          (case exec E s (text_of (get p ''sql'')) of
             (Inl e, s1) \<Rightarrow> (failure 400 e, s1)
           | (Inr u, s1) \<Rightarrow>
               (\<lparr>status = 200, body = ImportOk ''SQL imported successfully''\<rparr>, s1)))"


subsection \<open>GET /tables, GET /tables/:tableName/schema, GET /stats\<close>

text \<open>The statement texts are the template literals of the source, line by line.\<close>

definition tables_sql :: string where
  "tables_sql =
     NL @
     ''      SELECT tablename '' @ NL @
     ''      FROM pg_tables '' @ NL @
     ''      WHERE schemaname = 'public'' @ SQ @ NL @
     ''      ORDER BY tablename;'' @ NL @
     ''    ''"

definition get_tables :: "'db env \<Rightarrow> 'db session \<Rightarrow> response \<times> 'db session" where
  "get_tables E s =
     (case query E s tables_sql [] of
        (Inl e, s1) \<Rightarrow> (failure 500 e, s1)
      | (Inr result, s1) \<Rightarrow>
          (case res_json 200 (TablesOk (map (\<lambda>r. get_prop r ''tablename'') (rows result))) of
             Inl e \<Rightarrow> (failure 500 e, s1)
           | Inr res \<Rightarrow> (res, s1)))"

definition columns_sql :: string where
  "columns_sql =
     NL @
     ''      SELECT '' @ NL @
     ''        column_name,'' @ NL @
     ''        data_type,'' @ NL @
     ''        is_nullable,'' @ NL @
     ''        column_default'' @ NL @
     ''      FROM information_schema.columns'' @ NL @
     ''      WHERE table_schema = 'public' '' @ NL @
     ''        AND table_name = $1'' @ NL @
     ''      ORDER BY ordinal_position;'' @ NL @
     ''    ''"

definition get_table_schema :: "'db env \<Rightarrow> 'db session \<Rightarrow> string \<Rightarrow> response \<times> 'db session" where
  "get_table_schema E s tableName =
     (case query E s columns_sql [JStr tableName] of
        (Inl e, s1) \<Rightarrow> (failure 500 e, s1)
      | (Inr result, s1) \<Rightarrow>
          (case res_json 200 (SchemaOk tableName (rows result)) of
             Inl e \<Rightarrow> (failure 500 e, s1)
           | Inr res \<Rightarrow> (res, s1)))"

definition table_sizes_sql :: string where
  "table_sizes_sql =
     NL @
     ''      SELECT '' @ NL @
     ''        schemaname,'' @ NL @
     ''        tablename,'' @ NL @
     ''        pg_size_pretty(pg_total_relation_size(schemaname||'.'||tablename)) AS size'' @ NL @
     ''      FROM pg_tables'' @ NL @
     ''      WHERE schemaname = 'public'' @ SQ @ NL @
     ''    ''"

definition database_size_sql :: string where
  "database_size_sql =
     NL @
     ''      SELECT pg_size_pretty(pg_database_size(current_database())) as size'' @ NL @
     ''    ''"

definition get_stats :: "'db env \<Rightarrow> 'db session \<Rightarrow> response \<times> 'db session" where
  "get_stats E s =
     (case query E s table_sizes_sql [] of
        (Inl e, s1) \<Rightarrow> (failure 500 e, s1)
      | (Inr tablesResult, s1) \<Rightarrow>
          (case query E s1 database_size_sql [] of
             (Inl e, s2) \<Rightarrow> (failure 500 e, s2)
           | (Inr dbSize, s2) \<Rightarrow>
               (case res_json 200
                       (StatsOk (case rows dbSize of [] \<Rightarrow> JUndefined
                                 | r # rs \<Rightarrow> get_prop r ''size'')
                          (rows tablesResult)) of
                  Inl e \<Rightarrow> (failure 500 e, s2)
                | Inr res \<Rightarrow> (res, s2))))"

subsection \<open>GET /export\<close>

definition export_tables_sql :: string where
  "export_tables_sql =
     NL @
     ''      SELECT tablename '' @ NL @
     ''      FROM pg_tables '' @ NL @
     ''      WHERE schemaname = 'public'' @ SQ @ NL @
     ''    ''"

definition create_stmt_sql :: string where
  "create_stmt_sql =
     NL @
     ''        SELECT '' @ NL @
     ''          'CREATE TABLE ' || $1 || ' (' ||'' @ NL @
     ''          string_agg('' @ NL @
     ''            column_name || ' ' || data_type || '' @ NL @
     ''            CASE WHEN is_nullable = 'NO' THEN ' NOT NULL' ELSE '' @ SQ @ SQ @ '' END,'' @ NL @
     ''            ', '' @ SQ @ NL @
     ''          ) || ');' as create_stmt'' @ NL @
     ''        FROM information_schema.columns'' @ NL @
     ''        WHERE table_name = $1'' @ NL @
     ''        GROUP BY table_name;'' @ NL @
     ''      ''"

text \<open>\<^verbatim>\<open>v.replace(/'/g, "''")\<close>\<close>

definition double_quotes :: "string \<Rightarrow> string" where
  "double_quotes s = concat (map (\<lambda>c. if c = CHR 0x27 then SQ @ SQ else [c]) s)"

text \<open>
  The mapping over \<^verbatim>\<open>Object.values(row)\<close>: a value whose \<^verbatim>\<open>typeof\<close> is \<^verbatim>\<open>'string'\<close>
  becomes the quoted text, every other value is passed on as it is.
\<close>

fun sql_literal :: "jsval \<Rightarrow> jsval" where
  "sql_literal (JStr s) = JStr (SQ @ double_quotes s @ SQ)"
| "sql_literal v = v"

definition insert_stmt :: "jsval \<Rightarrow> row \<Rightarrow> string" where
  "insert_stmt tablename r =
     ''INSERT INTO '' @ to_string tablename @ '' VALUES ('' @
       js_join '', '' (map sql_literal (map snd r)) @ '');'' @ NL"

fun append_rows :: "jsval \<Rightarrow> row list \<Rightarrow> string \<Rightarrow> string" where
  "append_rows tablename [] dump = dump"
| "append_rows tablename (r # rs) dump = append_rows tablename rs (dump @ insert_stmt tablename r)"

fun export_tables ::
  "'db env \<Rightarrow> 'db session \<Rightarrow> row list \<Rightarrow> string \<Rightarrow> (thrown + string) \<times> 'db session" where
  "export_tables E s [] dump = (Inr dump, s)"
| "export_tables E s (t # ts) dump =
     (case query E s create_stmt_sql [get_prop t ''tablename''] of
        (Inl e, s1) \<Rightarrow> (Inl e, s1)
      | (Inr createResult, s1) \<Rightarrow>
          (case query E s1 (''SELECT * FROM '' @ to_string (get_prop t ''tablename'')) [] of
             (Inl e, s2) \<Rightarrow> (Inl e, s2)
           | (Inr data, s2) \<Rightarrow>
               export_tables E s2 ts
                 (let dump1 = dump @
                        to_string (case rows createResult of [] \<Rightarrow> JUndefined
                                   | r # rs \<Rightarrow> get_prop r ''create_stmt'') @ NL @ NL
                  in if length (rows data) > 0
                     then append_rows (get_prop t ''tablename'') (rows data) dump1 @ NL
                     else dump1)))"

definition get_export :: "'db env \<Rightarrow> 'db session \<Rightarrow> string \<Rightarrow> response \<times> 'db session" where
  "get_export E s now =
     (case query E s export_tables_sql [] of
        (Inl e, s1) \<Rightarrow> (failure 500 e, s1)
      | (Inr tables, s1) \<Rightarrow>
          (case export_tables E s1 (rows tables)
                  (''-- PGlite Database Export'' @ NL @ ''-- Generated: '' @ now @ NL @ NL) of
             (Inl e, s2) \<Rightarrow> (failure 500 e, s2)
           | (Inr dump, s2) \<Rightarrow> (\<lparr>status = 200, body = SqlDump dump\<rparr>, s2)))"

subsection \<open>The users routes\<close>

definition get_users :: "'db env \<Rightarrow> 'db session \<Rightarrow> response \<times> 'db session" where
  "get_users E s =
     (case query E s ''SELECT * FROM users ORDER BY id'' [] of
        (Inl e, s1) \<Rightarrow> (failure 500 e, s1)
      | (Inr result, s1) \<Rightarrow>
          (case res_json 200 (UsersOk (rows result)) of
             Inl e \<Rightarrow> (failure 500 e, s1)
           | Inr res \<Rightarrow> (res, s1)))"

definition userCreateSchema :: schema where
  "userCreateSchema = ZObject [(''name'', ZString [Min 1]), (''email'', ZString [Email])]"

definition post_users :: "'db env \<Rightarrow> 'db session \<Rightarrow> jsval \<Rightarrow> response \<times> 'db session" where
  "post_users E s req_body =
     (case parse (email_re E) userCreateSchema req_body of
        Inl errs \<Rightarrow> (failure 400 (ZodError errs), s)
      | Inr p \<Rightarrow>
          (case query E s ''INSERT INTO users (name, email) VALUES ($1, $2) RETURNING *''
                  [get p ''name'', get p ''email''] of
             (Inl e, s1) \<Rightarrow> (failure 400 e, s1)
           | (Inr result, s1) \<Rightarrow>
               (case res_json 201 (UserOk (first_row (rows result))) of
                  Inl e \<Rightarrow> (failure 400 e, s1)
                | Inr res \<Rightarrow> (res, s1))))"

definition not_found :: response where
  "not_found = \<lparr>status = 404, body = Failure (Text ''User not found'') None\<rparr>"

definition get_user :: "'db env \<Rightarrow> 'db session \<Rightarrow> string \<Rightarrow> response \<times> 'db session" where
  "get_user E s id_param =
     (case query E s ''SELECT * FROM users WHERE id = $1'' [parseInt E id_param] of
        (Inl e, s1) \<Rightarrow> (failure 500 e, s1)
      | (Inr result, s1) \<Rightarrow>
          (if length (rows result) = 0 then (not_found, s1)
           else
             (case res_json 200 (UserOk (first_row (rows result))) of
                Inl e \<Rightarrow> (failure 500 e, s1)
              | Inr res \<Rightarrow> (res, s1))))"

definition userUpdateSchema :: schema where
  "userUpdateSchema =
     ZObject [(''name'', ZOptional (ZString [Min 1])), (''email'', ZOptional (ZString [Email]))]"

text \<open>What \<^verbatim>\<open>if (v)\<close> tests, on the values a validated field can have.\<close>

fun truthy :: "jsval \<Rightarrow> bool" where
  "truthy JUndefined = False"
| "truthy JNull = False"
| "truthy (JBool b) = b"
| "truthy (JNum w) = (w \<noteq> 0)"
| "truthy (JBigInt i) = (i \<noteq> 0)"
| "truthy JNaN = False"
| "truthy (JStr s) = (s \<noteq> [])"
| "truthy v = True"

text \<open>
  One \<^verbatim>\<open>if (field) { updates.push(`field = $${paramCount++}`); values.push(field) }\<close>
  step on the three locals \<^verbatim>\<open>updates\<close>, \<^verbatim>\<open>values\<close> and \<^verbatim>\<open>paramCount\<close>.
\<close>

definition push_field ::
  "string \<Rightarrow> jsval \<Rightarrow> string list \<times> jsval list \<times> nat \<Rightarrow> string list \<times> jsval list \<times> nat" where
  "push_field col v st =
     (case st of (updates, vals, paramCount) \<Rightarrow>
        if truthy v
        then (updates @ [col @ '' = $'' @ show_nat paramCount], vals @ [v], paramCount + 1)
        else st)"

definition build_updates :: "jsval \<Rightarrow> jsval \<Rightarrow> string list \<times> jsval list \<times> nat" where
  "build_updates name email = push_field ''email'' email (push_field ''name'' name ([], [], 1))"

definition put_user :: "'db env \<Rightarrow> 'db session \<Rightarrow> string \<Rightarrow> jsval \<Rightarrow> response \<times> 'db session" where
  "put_user E s id_param req_body =
     (case parse (email_re E) userUpdateSchema req_body of
        Inl errs \<Rightarrow> (failure 400 (ZodError errs), s)
      | Inr p \<Rightarrow>
          (case build_updates (get p ''name'') (get p ''email'') of
             (updates, vals, paramCount) \<Rightarrow>
               if length updates = 0
               then (\<lparr>status = 400, body = Failure (Text ''No fields to update'') None\<rparr>, s)
               else
                 (case query E s
                         (''UPDATE users SET '' @ join '', '' updates @ '' WHERE id = $'' @
                            show_nat paramCount @ '' RETURNING *'')
                         (vals @ [parseInt E id_param]) of
                    (Inl e, s1) \<Rightarrow> (failure 400 e, s1)
                  | (Inr result, s1) \<Rightarrow>
                      (if length (rows result) = 0 then (not_found, s1)
                       else
                         (case res_json 200 (UserOk (first_row (rows result))) of
                            Inl e \<Rightarrow> (failure 400 e, s1)
                          | Inr res \<Rightarrow> (res, s1))))))"

definition delete_user :: "'db env \<Rightarrow> 'db session \<Rightarrow> string \<Rightarrow> response \<times> 'db session" where
  "delete_user E s id_param =
     (case query E s ''DELETE FROM users WHERE id = $1 RETURNING *'' [parseInt E id_param] of
        (Inl e, s1) \<Rightarrow> (failure 500 e, s1)
      | (Inr result, s1) \<Rightarrow>
          (if length (rows result) = 0 then (not_found, s1)
           else
             (case res_json 200 (UserDeleted ''User deleted'' (first_row (rows result))) of
                Inl e \<Rightarrow> (failure 500 e, s1)
              | Inr res \<Rightarrow> (res, s1))))"


section \<open>The application: middleware, then routing\<close>

text \<open>
  \<^verbatim>\<open>app.use(express.json({ limit: '10mb' }))\<close> runs before every route. The parser is
  the framework's; what is kept of it is its contract. It leaves a request alone unless
  the request has a body whose \<^verbatim>\<open>Content-Type\<close> is JSON; it answers 413 when that body is
  longer than the limit, which the text \<^verbatim>\<open>'10mb'\<close> sets to \<open>10 * 1024 * 1024\<close> bytes; it
  answers 400 when the body text does not parse; otherwise it sets \<^verbatim>\<open>req.body\<close>. A rejected
  request goes to the framework's error page, never to a route. \<^verbatim>\<open>cors()\<close> only adds
  headers to the requests considered here.

  In a request, \<open>json_body\<close> is what the parser's reading of the body text gives (\<open>None\<close>
  when it throws) and \<open>clock\<close> is the text \<^verbatim>\<open>new Date().toISOString()\<close> gives while the
  request is handled.
\<close>

datatype route =
    GetHealth
  | PostQuery
  | PostTransaction
  | GetTables
  | GetTableSchema string
  | GetExport
  | PostImport
  | GetStats
  | GetUsers
  | PostUsers
  | GetUser string
  | PutUser string
  | DeleteUser string
  | Unmatched

record request =
  route :: route
  json_typed :: bool
  body_length :: nat
  json_body :: "jsval option"
  clock :: string

datatype parsed = Rejected nat | Body jsval

definition json_limit :: nat where
  "json_limit = 10 * 1024 * 1024"

definition express_json :: "'db env \<Rightarrow> request \<Rightarrow> parsed" where
  "express_json E req =
     (if \<not> json_typed req then Body (unparsed_body E)
      else if body_length req > json_limit then Rejected 413
      else (case json_body req of None \<Rightarrow> Rejected 400 | Some v \<Rightarrow> Body v))"

fun dispatch :: "'db env \<Rightarrow> 'db session \<Rightarrow> route \<Rightarrow> jsval \<Rightarrow> string \<Rightarrow> response \<times> 'db session" where
  "dispatch E s GetHealth b now = get_health E s now"
| "dispatch E s PostQuery b now = post_query E s b"
| "dispatch E s PostTransaction b now = post_transaction E s b"
| "dispatch E s GetTables b now = get_tables E s"
| "dispatch E s (GetTableSchema tableName) b now = get_table_schema E s tableName"
| "dispatch E s GetExport b now = get_export E s now"
| "dispatch E s PostImport b now = post_import E s b"
| "dispatch E s GetStats b now = get_stats E s"
| "dispatch E s GetUsers b now = get_users E s"
| "dispatch E s PostUsers b now = post_users E s b"
| "dispatch E s (GetUser i) b now = get_user E s i"
| "dispatch E s (PutUser i) b now = put_user E s i b"
| "dispatch E s (DeleteUser i) b now = delete_user E s i"
| "dispatch E s Unmatched b now = (\<lparr>status = 404, body = ErrorPage\<rparr>, s)"

definition app :: "'db env \<Rightarrow> 'db session \<Rightarrow> request \<Rightarrow> response \<times> 'db session" where
  "app E s req =
     (case express_json E req of
        Rejected n \<Rightarrow> (\<lparr>status = n, body = ErrorPage\<rparr>, s)
      | Body b \<Rightarrow> dispatch E s (route req) b (clock req))"

section \<open>Startup\<close>

text \<open>
  The process start is a sequence of effects on its host: the directory is created at
  module load, \<^verbatim>\<open>startServer\<close> removes a stale lock file, \<^verbatim>\<open>initDB\<close> runs the write and
  delete check, opens the engine and creates the schema, and only then does the listener
  bind. The host decides which of these steps throw. A failed removal of the lock file is
  logged and startup goes on, so the host has no field for it. \<open>listen_throws\<close> is a call
  of \<^verbatim>\<open>app.listen\<close> that throws at once, as on a port out of range, which the outer
  \<^verbatim>\<open>catch\<close> turns into \<^verbatim>\<open>process.exit(1)\<close>. A bind that fails later, as on a port in use, is
  reported by the framework after \<^verbatim>\<open>startServer\<close> has returned and is not part of this
  sequence.
\<close>

definition schema_sql :: string where
  "schema_sql =
     NL @
     ''    CREATE TABLE IF NOT EXISTS users ('' @ NL @
     ''      id SERIAL PRIMARY KEY,'' @ NL @
     ''      name TEXT NOT NULL,'' @ NL @
     ''      email TEXT UNIQUE NOT NULL,'' @ NL @
     ''      created_at TIMESTAMP DEFAULT CURRENT_TIMESTAMP'' @ NL @
     ''    );'' @ NL @
     ''  ''"

record host =
  dir_exists :: bool
  mkdir_ok :: bool
  lock_exists :: bool
  write_ok :: bool
  rm_ok :: bool
  open_ok :: bool
  schema_ok :: bool
  listen_throws :: bool

datatype effect =
    MkDir
  | RmLock
  | WriteTest
  | RmTest
  | OpenEngine
  | ExecSchema string
  | Listen
  | Exit nat
  | Uncaught

datatype startup_error = FsError | OpenError | SchemaError

definition initDB :: "host \<Rightarrow> effect list \<times> (startup_error + unit)" where
  "initDB h =
     (if \<not> write_ok h then ([WriteTest], Inl FsError)
      else if \<not> rm_ok h then ([WriteTest, RmTest], Inl FsError)
      else if \<not> open_ok h then ([WriteTest, RmTest, OpenEngine], Inl OpenError)
      else if \<not> schema_ok h
        then ([WriteTest, RmTest, OpenEngine, ExecSchema schema_sql], Inl SchemaError)
      else ([WriteTest, RmTest, OpenEngine, ExecSchema schema_sql], Inr ()))"

definition startServer :: "host \<Rightarrow> effect list" where
  "startServer h =
     (if lock_exists h then [RmLock] else []) @
     (case initDB h of
        (effects, Inl dbError) \<Rightarrow> effects @ [Exit 1]
      | (effects, Inr u) \<Rightarrow>
          if listen_throws h then effects @ [Listen, Exit 1] else effects @ [Listen])"

definition main :: "host \<Rightarrow> effect list" where
  "main h =
     (if dir_exists h then startServer h
      else if mkdir_ok h then MkDir # startServer h
      else [MkDir, Uncaught])"

section \<open>The transaction body, in the words of the specification\<close>

text \<open>
  An entry \<^verbatim>\<open>{query, params?}\<close>: an object whose \<^verbatim>\<open>query\<close> is a text and whose \<^verbatim>\<open>params\<close>,
  when there, is a list. A body carries an entry list when it is an object whose
  \<^verbatim>\<open>queries\<close> is a list of entries, of any length.
\<close>

fun well_formed_entry :: "jsval \<Rightarrow> bool" where
  "well_formed_entry (JObj kv) =
     ((case get_prop kv ''query'' of JStr q \<Rightarrow> True | _ \<Rightarrow> False) \<and>
      (case get_prop kv ''params'' of JUndefined \<Rightarrow> True | JArr ps \<Rightarrow> True | _ \<Rightarrow> False))"
| "well_formed_entry v = False"

definition carries_entry_list :: "jsval \<Rightarrow> bool" where
  "carries_entry_list b =
     (case b of
        JObj kvs \<Rightarrow>
          (case get_prop kvs ''queries'' of JArr es \<Rightarrow> list_all well_formed_entry es | _ \<Rightarrow> False)
      | _ \<Rightarrow> False)"

section \<open>What a request did to the session\<close>

text \<open>The calls one request added to the trace, and whether a call was answered without an error.\<close>

definition new_calls :: "'db session \<Rightarrow> 'db session \<Rightarrow> dbcall list" where
  "new_calls s s' = drop (length (trace s)) (trace s')"

fun call_ok :: "dbcall \<Rightarrow> bool" where
  "call_ok (QueryCall sql params r) = is_ok r"
| "call_ok (ExecCall sql r) = is_ok r"

section \<open>Concrete sessions\<close>

text \<open>
  An environment with a scripted engine, for running the handlers on concrete requests:
  the engine answers from the statement text alone and its store counts the statements
  it has seen. Its \<^verbatim>\<open>parseInt\<close> reads plain decimal texts of at most fifteen digits, on
  which it is \<^verbatim>\<open>parseInt\<close>; it answers \<^verbatim>\<open>NaN\<close> on every other text.
\<close>

fun decimal :: "string \<Rightarrow> nat \<Rightarrow> jsval" where
  "decimal [] n = JNum (of_nat n)"
| "decimal (c # cs) n =
     (if 48 \<le> (of_char c :: nat) \<and> (of_char c :: nat) \<le> 57
      then decimal cs (10 * n + (of_char c - 48)) else JNaN)"

definition scripted ::
  "(string \<Rightarrow> jsval list \<Rightarrow> thrown + qresult) \<Rightarrow> (string \<Rightarrow> thrown + unit) \<Rightarrow> nat env" where
  "scripted q x =
     \<lparr>db_query = (\<lambda>d sql params. (q sql params, Suc d)),
      db_exec = (\<lambda>d sql. (x sql, Suc d)),
      email_re = (\<lambda>s. CHR ''@'' \<in> set s),
      parseInt = (\<lambda>s. if s = [] \<or> length s > 15 then JNaN else decimal s 0),
      dataDir = ''/app/data/pglite_db'',
      unparsed_body = JObj []\<rparr>"

definition fresh :: "nat session" where
  "fresh = \<lparr>store = 0, trace = []\<rparr>"


text \<open>An engine on which the statement \<^verbatim>\<open>FAIL\<close> and every \<^verbatim>\<open>ROLLBACK\<close> are rejected.\<close>

definition flaky :: "nat env" where
  "flaky =
     scripted
       (\<lambda>sql params. if sql = ''FAIL'' then Inl (EngineError ''boom'' None)
                      else Inr \<lparr>rows = [[(''a'', JNum 1)]], result_fields = None\<rparr>)
       (\<lambda>sql. if sql = ''ROLLBACK'' then Inl (EngineError ''no transaction'' None)
               else Inr ())"

definition batch :: jsval where
  "batch =
     JObj [(''queries'',
       JArr [JObj [(''query'', JStr ''SELECT 1'')],
             JObj [(''query'', JStr ''FAIL''), (''params'', JArr [JNum 3])],
             JObj [(''query'', JStr ''SELECT 2'')]])]"

text \<open>An engine that answers every statement with no rows.\<close>

definition quiet :: "nat env" where
  "quiet = scripted (\<lambda>sql params. Inr \<lparr>rows = [], result_fields = None\<rparr>) (\<lambda>sql. Inr ())"

definition big_import :: request where
  "big_import =
     \<lparr>route = PostImport, json_typed = True, body_length = 10485761,
      json_body = Some (JObj [(''sql'', JStr ''SELECT 1'')]),
      clock = ''2026-01-01T00:00:00.000Z''\<rparr>"

definition readonly_host :: host where
  "readonly_host =
     \<lparr>dir_exists = True, mkdir_ok = True, lock_exists = True, write_ok = False, rm_ok = True,
      open_ok = True, schema_ok = True, listen_throws = False\<rparr>"

text \<open>
  An engine holding one table \<^verbatim>\<open>t\<close>: it answers the three statements of the export
  routine, with the given \<^verbatim>\<open>CREATE TABLE\<close> text and the given rows.
\<close>

definition one_table :: "string \<Rightarrow> row list \<Rightarrow> nat env" where
  "one_table create_stmt data =
     scripted
       (\<lambda>sql params.
          if sql = export_tables_sql
            then Inr \<lparr>rows = [[(''tablename'', JStr ''t'')]], result_fields = None\<rparr>
          else if sql = create_stmt_sql
            then Inr \<lparr>rows = [[(''create_stmt'', JStr create_stmt)]], result_fields = None\<rparr>
          else if sql = ''SELECT * FROM t''
            then Inr \<lparr>rows = data, result_fields = None\<rparr>
          else Inl (EngineError ''unexpected statement'' None))
       (\<lambda>sql. Inl (EngineError ''unexpected statement'' None))"

section \<open>Traces of the session calls\<close>

lemma query_trace:
  "query E s sql params = (r, s') \<Longrightarrow> trace s' = trace s @ [QueryCall sql params r]"
  by (auto simp: query_def split: prod.splits)

lemma exec_trace:
  "exec E s sql = (r, s') \<Longrightarrow> trace s' = trace s @ [ExecCall sql r]"
  by (auto simp: exec_def split: prod.splits)




lemma rollback_and_fail_trace:
  "rollback_and_fail E s e = (res, s') \<Longrightarrow>
     res = failure 400 e \<and> (\<exists>outcome. trace s' = trace s @ [ExecCall ''ROLLBACK'' outcome])"
  by (auto simp: rollback_and_fail_def split: prod.splits dest: exec_trace)


section \<open>POST /transaction: a failing statement\<close>





section \<open>Startup, body size and health\<close>

text \<open>
  C8. When the write and delete check on the data directory fails, the process ends with
  \<^verbatim>\<open>process.exit(1)\<close>: the check was tried once, the engine was never opened and the
  listener never bound.
\<close>

theorem smoke_test_failure_aborts:
  "\<not> (write_ok h \<and> rm_ok h) \<Longrightarrow> dir_exists h \<or> mkdir_ok h \<Longrightarrow>
     last (main h) = Exit 1 \<and> Listen \<notin> set (main h) \<and> OpenEngine \<notin> set (main h)
     \<and> count_list (main h) WriteTest = 1"
  by (auto simp: main_def startServer_def initDB_def)

theorem smoke_test_failure_aborts_witness:
  "\<not> (write_ok readonly_host \<and> rm_ok readonly_host)
   \<and> (dir_exists readonly_host \<or> mkdir_ok readonly_host)
   \<and> main readonly_host = [RmLock, WriteTest, Exit 1]
   \<and> last (main readonly_host) = Exit 1 \<and> Listen \<notin> set (main readonly_host)
   \<and> OpenEngine \<notin> set (main readonly_host)
   \<and> count_list (main readonly_host) WriteTest = 1"
proof -
  have a: "\<not> (write_ok readonly_host \<and> rm_ok readonly_host)"
    by (simp add: readonly_host_def)
  have b: "dir_exists readonly_host \<or> mkdir_ok readonly_host"
    by (simp add: readonly_host_def)
  have c: "main readonly_host = [RmLock, WriteTest, Exit 1]"
    by (simp add: readonly_host_def main_def startServer_def initDB_def)
  from smoke_test_failure_aborts[OF a b] a b c show ?thesis
    by blast
qed

text \<open>
  C9. A request with a JSON body of more than \<open>10 * 1024 * 1024\<close> bytes is answered 413 by
  the body parser; no route handler runs and the session is left as it was, on every route.
\<close>

theorem oversized_body_rejected:
  "json_typed req \<Longrightarrow> body_length req > 10 * 1024 * 1024 \<Longrightarrow>
     app E s req = (\<lparr>status = 413, body = ErrorPage\<rparr>, s)"
  by (simp add: app_def express_json_def json_limit_def)

theorem oversized_body_rejected_witness:
  "json_typed big_import \<and> body_length big_import > 10 * 1024 * 1024
   \<and> app quiet fresh big_import = (\<lparr>status = 413, body = ErrorPage\<rparr>, fresh)"
proof -
  have a: "json_typed big_import" by (simp add: big_import_def)
  have b: "body_length big_import > 10 * 1024 * 1024" by (simp add: big_import_def)
  from oversized_body_rejected[OF a b] a b show ?thesis
    by blast
qed

text \<open>
  C10. The health handler answers 200 with \<^verbatim>\<open>status: 'healthy'\<close> and
  \<^verbatim>\<open>database: 'connected'\<close>, leaves the session untouched, and its answer is the same
  whatever the engine and the state of the session are.
\<close>

theorem health_is_constant:
  "get_health E s now =
     (\<lparr>status = 200, body = HealthBody ''healthy'' ''connected'' (dataDir E) now\<rparr>, s)
   \<and> fst (get_health (E\<lparr>db_query := q, db_exec := x\<rparr>) s2 now) = fst (get_health E s now)"
  by (simp add: get_health_def)

section \<open>Validation\<close>

lemma is_ok_collect_arr: "is_ok (collect_arr rs) = list_all is_ok rs"
  by (simp add: collect_arr_def)

lemma is_ok_collect_obj: "is_ok (collect_obj krs) = list_all (\<lambda>(k, r). is_ok r) krs"
  by (simp add: collect_obj_def)

lemma entry_ok:
  "is_ok (parse re (ZObject [(''query'', ZString []), (''params'', ZOptional (ZArray ZAny))]) e)
     = well_formed_entry e"
  by (cases e) (auto simp: is_ok_collect_obj is_ok_collect_arr list_all_iff split: jsval.splits)

text \<open>
  C3, as the code has it. The validator of POST /transaction accepts a body exactly when it
  carries a list of \<^verbatim>\<open>{query, params?}\<close> entries; the list may be empty.
\<close>

theorem transaction_validator:
  "is_ok (parse re transactionSchema b) = carries_entry_list b"
proof (cases b)
  case (JObj kvs)
  show ?thesis
  proof (cases "get_prop kvs ''queries''")
    case (JArr es)
    have "is_ok (collect_arr (map (parse re (ZObject [(''query'', ZString []), (''params'', ZOptional (ZArray ZAny))])) es))
          = list_all well_formed_entry es"
      by (simp add: is_ok_collect_arr list_all_iff entry_ok del: parse.simps)
    with JObj JArr show ?thesis
      by (simp add: transactionSchema_def carries_entry_list_def is_ok_collect_obj)
  qed (simp_all add: JObj transactionSchema_def carries_entry_list_def is_ok_collect_obj)
qed (simp_all add: transactionSchema_def carries_entry_list_def)

theorem transaction_validator_witness:
  "carries_entry_list batch \<and> is_ok (parse (email_re flaky) transactionSchema batch)"
proof -
  have a: "carries_entry_list batch" by code_simp
  from a show ?thesis by (simp only: transaction_validator)
qed

text \<open>
  C3, as it is written, fails: a body whose \<^verbatim>\<open>queries\<close> is the empty list passes the
  validator, and the handler runs \<^verbatim>\<open>BEGIN\<close> and \<^verbatim>\<open>COMMIT\<close> and answers 200 with no results.
\<close>

theorem empty_batch_accepted:
  "is_ok (parse (email_re quiet) transactionSchema (JObj [(''queries'', JArr [])]))
   \<and> post_transaction quiet fresh (JObj [(''queries'', JArr [])]) =
       (\<lparr>status = 200, body = TransactionOk []\<rparr>,
        \<lparr>store = 2, trace = [ExecCall ''BEGIN'' (Inr ()), ExecCall ''COMMIT'' (Inr ())]\<rparr>)"
  by code_simp

text \<open>
  On the routes \<^verbatim>\<open>/query\<close>, \<^verbatim>\<open>/import\<close>, \<^verbatim>\<open>/users\<close> and \<^verbatim>\<open>/users/:id\<close> a body that fails
  validation is answered 400 and the session is not touched.
\<close>

lemma invalid_body_no_call:
  "parse (email_re E) querySchema b = Inl errs \<Longrightarrow> status (fst (post_query E s b)) = 400 \<and> snd (post_query E s b) = s"
  "parse (email_re E) importSchema b = Inl errs \<Longrightarrow> post_import E s b = (failure 400 (ZodError errs), s)"
  "parse (email_re E) userCreateSchema b = Inl errs \<Longrightarrow> post_users E s b = (failure 400 (ZodError errs), s)"
  "parse (email_re E) userUpdateSchema b = Inl errs \<Longrightarrow> put_user E s i b = (failure 400 (ZodError errs), s)"
  by (simp_all add: post_query_def post_import_def post_users_def put_user_def)

text \<open>
  On \<^verbatim>\<open>/transaction\<close> the parse sits inside the \<^verbatim>\<open>try\<close> whose \<^verbatim>\<open>catch\<close> rolls back, so a
  body that fails validation is answered 400 after a \<^verbatim>\<open>ROLLBACK\<close> has been sent to the
  session.
\<close>

lemma invalid_transaction_body_general:
  "parse (email_re E) transactionSchema b = Inl errs \<Longrightarrow> post_transaction E s b = (res, s') \<Longrightarrow>
     res = failure 400 (ZodError errs) \<and> (\<exists>outcome. new_calls s s' = [ExecCall ''ROLLBACK'' outcome])"
  by (auto simp: post_transaction_def new_calls_def dest!: rollback_and_fail_trace)

text \<open>
  C2 at the body \<^verbatim>\<open>{}\<close> of a POST /transaction: validation fails, the answer is 400, and
  the trace holds one call, the \<^verbatim>\<open>ROLLBACK\<close>.
\<close>

theorem invalid_transaction_body_reaches_session:
  "\<not> is_ok (parse (email_re quiet) transactionSchema (JObj []))
   \<and> post_transaction quiet fresh (JObj []) =
       (\<lparr>status = 400, body = Failure (ZodMessage [([Key ''queries''], invalid_type)]) None\<rparr>,
        \<lparr>store = 1, trace = [ExecCall ''ROLLBACK'' (Inr ())]\<rparr>)"
  by code_simp

section \<open>The users routes\<close>

lemma new_calls_same: "new_calls s s = []"
  by (simp add: new_calls_def)

lemma new_calls_query:
  "query E s sql params = (r, s') \<Longrightarrow> new_calls s s' = [QueryCall sql params r]"
  by (simp add: new_calls_def query_trace)

lemma sent_or_caught:
  assumes "(case res_json 200 payload of Inl e \<Rightarrow> (failure n e, s1) | Inr res \<Rightarrow> (res, s1)) = (res', s')"
    and "n \<noteq> 404"
  shows "s' = s1 \<and> status res' \<noteq> 404"
  using assms by (cases "res_json 200 payload") (auto simp: res_json_def failure_def split: if_splits)

lemma get_user_cases:
  assumes "get_user E s i = (res, s')"
  shows "\<exists>r. new_calls s s' = [QueryCall ''SELECT * FROM users WHERE id = $1'' [parseInt E i] r]
           \<and> (case r of Inl e \<Rightarrow> res = failure 500 e
               | Inr result \<Rightarrow> if rows result = [] then res = not_found else status res \<noteq> 404)"
proof -
  obtain r s1 where q: "query E s ''SELECT * FROM users WHERE id = $1'' [parseInt E i] = (r, s1)"
    by (cases "query E s ''SELECT * FROM users WHERE id = $1'' [parseInt E i]")
  show ?thesis
  proof (cases r)
    case (Inl e)
    with assms q new_calls_query[OF q] show ?thesis by (auto simp: get_user_def)
  next
    case (Inr result)
    show ?thesis
    proof (cases "rows result = []")
      case True
      with assms q Inr new_calls_query[OF q] show ?thesis by (auto simp: get_user_def)
    next
      case False
      with assms q Inr have
        "(case res_json 200 (UserOk (first_row (rows result))) of
            Inl e \<Rightarrow> (failure 500 e, s1) | Inr res \<Rightarrow> (res, s1)) = (res, s')"
        by (simp add: get_user_def)
      from sent_or_caught[OF this] have "s' = s1" "status res \<noteq> 404" by simp_all
      with Inr False new_calls_query[OF q] show ?thesis by auto
    qed
  qed
qed

lemma delete_user_cases:
  assumes "delete_user E s i = (res, s')"
  shows "\<exists>r. new_calls s s' = [QueryCall ''DELETE FROM users WHERE id = $1 RETURNING *'' [parseInt E i] r]
           \<and> (case r of Inl e \<Rightarrow> res = failure 500 e
               | Inr result \<Rightarrow> if rows result = [] then res = not_found else status res \<noteq> 404)"
proof -
  obtain r s1 where q: "query E s ''DELETE FROM users WHERE id = $1 RETURNING *'' [parseInt E i] = (r, s1)"
    by (cases "query E s ''DELETE FROM users WHERE id = $1 RETURNING *'' [parseInt E i]")
  show ?thesis
  proof (cases r)
    case (Inl e)
    with assms q new_calls_query[OF q] show ?thesis by (auto simp: delete_user_def)
  next
    case (Inr result)
    show ?thesis
    proof (cases "rows result = []")
      case True
      with assms q Inr new_calls_query[OF q] show ?thesis by (auto simp: delete_user_def)
    next
      case False
      with assms q Inr have
        "(case res_json 200 (UserDeleted ''User deleted'' (first_row (rows result))) of
            Inl e \<Rightarrow> (failure 500 e, s1) | Inr res \<Rightarrow> (res, s1)) = (res, s')"
        by (simp add: delete_user_def)
      from sent_or_caught[OF this] have "s' = s1" "status res \<noteq> 404" by simp_all
      with Inr False new_calls_query[OF q] show ?thesis by auto
    qed
  qed
qed

lemma put_user_cases:
  assumes "put_user E s i b = (res, s')"
  shows "(s' = s \<and> status res = 400
            \<and> (\<forall>p. parse (email_re E) userUpdateSchema b = Inr p
                   \<longrightarrow> fst (build_updates (get p ''name'') (get p ''email'')) = []))
         \<or> (\<exists>p updates vals paramCount r.
            parse (email_re E) userUpdateSchema b = Inr p
          \<and> build_updates (get p ''name'') (get p ''email'') = (updates, vals, paramCount)
          \<and> updates \<noteq> []
          \<and> new_calls s s' =
               [QueryCall (''UPDATE users SET '' @ join '', '' updates @ '' WHERE id = $'' @
                            show_nat paramCount @ '' RETURNING *'')
                  (vals @ [parseInt E i]) r]
          \<and> (case r of Inl e \<Rightarrow> res = failure 400 e
               | Inr result \<Rightarrow> if rows result = [] then res = not_found else status res \<noteq> 404))"
proof (cases "parse (email_re E) userUpdateSchema b")
  case (Inl errs)
  with assms show ?thesis by (auto simp: put_user_def failure_def)
next
  case (Inr p)
  obtain updates vals paramCount where
    bu: "build_updates (get p ''name'') (get p ''email'') = (updates, vals, paramCount)"
    by (cases "build_updates (get p ''name'') (get p ''email'')")
  show ?thesis
  proof (cases "updates = []")
    case True
    with assms Inr bu show ?thesis by (auto simp: put_user_def)
  next
    case False
    let ?sql = "''UPDATE users SET '' @ join '', '' updates @ '' WHERE id = $'' @
                            show_nat paramCount @ '' RETURNING *''"
    obtain r s1 where q: "query E s ?sql (vals @ [parseInt E i]) = (r, s1)"
      by (cases "query E s ?sql (vals @ [parseInt E i])")
    have "s' = s1 \<and> (case r of Inl e \<Rightarrow> res = failure 400 e
               | Inr result \<Rightarrow> if rows result = [] then res = not_found else status res \<noteq> 404)"
    proof (cases r)
      case (Inl e)
      with assms \<open>parse (email_re E) userUpdateSchema b = Inr p\<close> bu False q show ?thesis
        by (auto simp: put_user_def)
    next
      case result: (Inr result)
      show ?thesis
      proof (cases "rows result = []")
        case True
        with assms \<open>parse (email_re E) userUpdateSchema b = Inr p\<close> bu False q result show ?thesis
          by (auto simp: put_user_def)
      next
        case nonempty: False
        with assms \<open>parse (email_re E) userUpdateSchema b = Inr p\<close> bu False q result have
          "(case res_json 200 (UserOk (first_row (rows result))) of
              Inl e \<Rightarrow> (failure 400 e, s1) | Inr res \<Rightarrow> (res, s1)) = (res, s')"
          by (simp add: put_user_def)
        from sent_or_caught[OF this] result nonempty show ?thesis by simp
      qed
    qed
    with new_calls_query[OF q] Inr bu False show ?thesis
      by blast
  qed
qed

lemma not_found_iff:
  assumes nc: "new_calls s s' = [QueryCall sql params r]"
    and res: "case r of Inl e \<Rightarrow> res = failure n e
               | Inr result \<Rightarrow> if rows result = [] then res = not_found else status res \<noteq> 404"
    and ok: "\<forall>c\<in>set (new_calls s s'). call_ok c"
  shows "\<exists>result. new_calls s s' = [QueryCall sql params (Inr result)]
           \<and> (status res = 404) = (length (rows result) = 0)
           \<and> (status res = 404 \<longrightarrow> res = not_found)"
proof (cases r)
  case (Inl e)
  with nc ok show ?thesis by simp
next
  case (Inr result)
  with nc res show ?thesis
    by (cases "rows result = []") (auto simp: not_found_def)
qed

lemma optional_string:
  "parse re (ZOptional (ZString cs)) v = Inr w \<Longrightarrow> w = v \<and> (v = JUndefined \<or> (\<exists>t. v = JStr t))"
  by (cases v) (auto split: if_splits simp: Let_def)

lemma update_fields:
  assumes "parse re userUpdateSchema b = Inr p"
  shows "get p ''name'' = get b ''name'' \<and> get p ''email'' = get b ''email''
         \<and> (get b ''name'' = JUndefined \<or> (\<exists>t. get b ''name'' = JStr t))
         \<and> (get b ''email'' = JUndefined \<or> (\<exists>t. get b ''email'' = JStr t))"
proof (cases b)
  case (JObj kvs)
  let ?n = "parse re (ZOptional (ZString [Min 1])) (get_prop kvs ''name'')"
  let ?e = "parse re (ZOptional (ZString [Email])) (get_prop kvs ''email'')"
  from assms JObj have c: "collect_obj [(''name'', ?n), (''email'', ?e)] = Inr p"
    by (simp only: userUpdateSchema_def parse.simps(4) jsval.case list.map prod.case)
  then have "is_ok ?n" "is_ok ?e"
    by (auto simp: collect_obj_def split: if_splits)
  then obtain vn ve where v: "?n = Inr vn" "?e = Inr ve"
    by (metis is_ok.elims(2))
  from c v have p: "p = JObj (filter (\<lambda>(k, v). v \<noteq> JUndefined) [(''name'', vn), (''email'', ve)])"
    by (simp add: collect_obj_def)
  from optional_string[OF v(1)] optional_string[OF v(2)] p JObj show ?thesis
    by (auto simp: get_prop_def)
qed (use assms in \<open>simp_all add: userUpdateSchema_def\<close>)

lemma build_updates_shape:
  "cols = filter (\<lambda>c. truthy (get b c)) [''name'', ''email''] \<Longrightarrow>
   build_updates (get b ''name'') (get b ''email'') =
     (map (\<lambda>(c, k). c @ '' = $'' @ show_nat k) (zip cols [1..<Suc (length cols)]),
      map (get b) cols, Suc (length cols))"
  by (simp add: build_updates_def push_field_def upt_rec)

lemma build_updates_empty:
  "(fst (build_updates n e) = []) = (\<not> truthy n \<and> \<not> truthy e)"
  by (simp add: build_updates_def push_field_def)

lemma put_user_refuses:
  assumes run: "put_user E s i b = (res, s')"
    and no: "\<not> (is_ok (parse (email_re E) userUpdateSchema b)
                \<and> (truthy (get b ''name'') \<or> truthy (get b ''email'')))"
  shows "s' = s \<and> status res = 400"
proof (cases "parse (email_re E) userUpdateSchema b")
  case (Inl errs)
  with run show ?thesis by (auto simp: put_user_def failure_def)
next
  case (Inr p)
  with no update_fields[OF Inr] have "\<not> truthy (get p ''name'')" "\<not> truthy (get p ''email'')"
    by simp_all
  then have "fst (build_updates (get p ''name'') (get p ''email'')) = []"
    by (simp add: build_updates_empty)
  with run Inr show ?thesis
    by (cases "build_updates (get p ''name'') (get p ''email'')") (auto simp: put_user_def)
qed

lemma put_user_sends:
  assumes run: "put_user E s i b = (res, s')"
    and yes: "is_ok (parse (email_re E) userUpdateSchema b)"
             "truthy (get b ''name'') \<or> truthy (get b ''email'')"
    and cols: "cols = filter (\<lambda>c. truthy (get b c)) [''name'', ''email'']"
  shows "\<exists>r. new_calls s s' =
                [QueryCall
                   (''UPDATE users SET '' @
                      join '', '' (map (\<lambda>(c, k). c @ '' = $'' @ show_nat k)
                                       (zip cols [1..<Suc (length cols)])) @
                      '' WHERE id = $'' @ show_nat (Suc (length cols)) @ '' RETURNING *'')
                   (map (get b) cols @ [parseInt E i]) r]
              \<and> (case r of Inl e \<Rightarrow> res = failure 400 e
                  | Inr result \<Rightarrow>
                      if rows result = [] then res = not_found else status res \<noteq> 404)"
proof -
  from yes(1) obtain p where p: "parse (email_re E) userUpdateSchema b = Inr p"
    by (cases "parse (email_re E) userUpdateSchema b") simp_all
  note f = update_fields[OF p]
  from put_user_cases[OF run] show ?thesis
  proof
    assume "s' = s \<and> status res = 400
            \<and> (\<forall>p. parse (email_re E) userUpdateSchema b = Inr p
                   \<longrightarrow> fst (build_updates (get p ''name'') (get p ''email'')) = [])"
    with p have "fst (build_updates (get p ''name'') (get p ''email'')) = []" by blast
    with f yes(2) show ?thesis by (simp add: build_updates_empty)
  next
    assume "\<exists>p updates vals paramCount r.
            parse (email_re E) userUpdateSchema b = Inr p
          \<and> build_updates (get p ''name'') (get p ''email'') = (updates, vals, paramCount)
          \<and> updates \<noteq> []
          \<and> new_calls s s' =
               [QueryCall (''UPDATE users SET '' @ join '', '' updates @ '' WHERE id = $'' @
                            show_nat paramCount @ '' RETURNING *'')
                  (vals @ [parseInt E i]) r]
          \<and> (case r of Inl e \<Rightarrow> res = failure 400 e
               | Inr result \<Rightarrow> if rows result = [] then res = not_found else status res \<noteq> 404)"
    then obtain p' updates vals paramCount r where
      p': "parse (email_re E) userUpdateSchema b = Inr p'"
      and bu: "build_updates (get p' ''name'') (get p' ''email'') = (updates, vals, paramCount)"
      and nc: "new_calls s s' =
               [QueryCall (''UPDATE users SET '' @ join '', '' updates @ '' WHERE id = $'' @
                            show_nat paramCount @ '' RETURNING *'')
                  (vals @ [parseInt E i]) r]"
      and res: "case r of Inl e \<Rightarrow> res = failure 400 e
               | Inr result \<Rightarrow> if rows result = [] then res = not_found else status res \<noteq> 404"
      by blast
    from p p' have "p' = p" by simp
    with bu f
    have "build_updates (get b ''name'') (get b ''email'') = (updates, vals, paramCount)"
      by simp
    with build_updates_shape[OF cols] have
      "(updates, vals, paramCount) =
         (map (\<lambda>(c, k). c @ '' = $'' @ show_nat k) (zip cols [1..<Suc (length cols)]),
          map (get b) cols, Suc (length cols))"
      by (simp only:)
    then have
      "updates = map (\<lambda>(c, k). c @ '' = $'' @ show_nat k) (zip cols [1..<Suc (length cols)])"
      "vals = map (get b) cols" "paramCount = Suc (length cols)"
      by (simp_all only: prod.inject)
    with nc res show ?thesis by blast
  qed
qed

text \<open>
  C6. On GET, PUT and DELETE \<^verbatim>\<open>/users/:id\<close>, when no call of the request was answered
  with an error: GET and DELETE send their one statement with the parsed id, and so does a
  PUT whose body passes validation and supplies a field; the status is 404 exactly when
  that statement returned no rows; a PUT that sends nothing is answered 400; and a 404
  answer is \<^verbatim>\<open>{ success: false, error: 'User not found' }\<close>, with no \<^verbatim>\<open>user\<close> property.
\<close>

theorem user_not_found_iff_no_rows:
  assumes rt: "rt \<in> {GetUser i, PutUser i, DeleteUser i}"
    and run: "dispatch E s rt b now = (res, s')"
    and ok: "\<forall>c\<in>set (new_calls s s'). call_ok c"
  shows "(rt = GetUser i \<longrightarrow>
            (\<exists>result. new_calls s s' =
                 [QueryCall ''SELECT * FROM users WHERE id = $1'' [parseInt E i] (Inr result)]
               \<and> (status res = 404) = (length (rows result) = 0)))
         \<and> (rt = DeleteUser i \<longrightarrow>
            (\<exists>result. new_calls s s' =
                 [QueryCall ''DELETE FROM users WHERE id = $1 RETURNING *'' [parseInt E i]
                    (Inr result)]
               \<and> (status res = 404) = (length (rows result) = 0)))
         \<and> (rt = PutUser i \<longrightarrow>
            (if is_ok (parse (email_re E) userUpdateSchema b)
                \<and> (truthy (get b ''name'') \<or> truthy (get b ''email''))
             then (let cols = filter (\<lambda>c. truthy (get b c)) [''name'', ''email'']
                   in \<exists>result. new_calls s s' =
                        [QueryCall
                           (''UPDATE users SET '' @
                  join '', '' (map (\<lambda>(c, k). c @ '' = $'' @ show_nat k)
                                   (zip cols [1..<Suc (length cols)])) @
                  '' WHERE id = $'' @ show_nat (Suc (length cols)) @ '' RETURNING *'')
                           (map (get b) cols @ [parseInt E i]) (Inr result)]
                      \<and> (status res = 404) = (length (rows result) = 0))
             else new_calls s s' = [] \<and> status res = 400))
         \<and> (status res = 404 \<longrightarrow>
               body res = Failure (Text ''User not found'') None \<and> user_field (body res) = None)"
proof -
  consider (g) "rt = GetUser i" | (p) "rt = PutUser i" | (d) "rt = DeleteUser i"
    using rt by blast
  then show ?thesis
  proof cases
    case g
    with run have "get_user E s i = (res, s')" by simp
    from get_user_cases[OF this] obtain r where
      "new_calls s s' = [QueryCall ''SELECT * FROM users WHERE id = $1'' [parseInt E i] r]"
      "case r of Inl e \<Rightarrow> res = failure 500 e
               | Inr result \<Rightarrow> if rows result = [] then res = not_found else status res \<noteq> 404"
      by blast
    from not_found_iff[OF this ok] g show ?thesis
      by (auto simp: not_found_def)
  next
    case d
    with run have "delete_user E s i = (res, s')" by simp
    from delete_user_cases[OF this] obtain r where
      "new_calls s s' = [QueryCall ''DELETE FROM users WHERE id = $1 RETURNING *'' [parseInt E i] r]"
      "case r of Inl e \<Rightarrow> res = failure 500 e
               | Inr result \<Rightarrow> if rows result = [] then res = not_found else status res \<noteq> 404"
      by blast
    from not_found_iff[OF this ok] d show ?thesis
      by (auto simp: not_found_def)
  next
    case p
    let ?cols = "filter (\<lambda>c. truthy (get b c)) [''name'', ''email'']"
    let ?sql = "''UPDATE users SET '' @
                  join '', '' (map (\<lambda>(c, k). c @ '' = $'' @ show_nat k)
                                   (zip ?cols [1..<Suc (length ?cols)])) @
                  '' WHERE id = $'' @ show_nat (Suc (length ?cols)) @ '' RETURNING *''"
    from p run have pu: "put_user E s i b = (res, s')" by simp
    show ?thesis
    proof (cases "is_ok (parse (email_re E) userUpdateSchema b)
                \<and> (truthy (get b ''name'') \<or> truthy (get b ''email''))")
      case True
      then have y: "is_ok (parse (email_re E) userUpdateSchema b)"
        "truthy (get b ''name'') \<or> truthy (get b ''email'')" by simp_all
      from put_user_sends[OF pu y refl] obtain r where
        "new_calls s s' = [QueryCall ?sql (map (get b) ?cols @ [parseInt E i]) r]"
        "case r of Inl e \<Rightarrow> res = failure 400 e
                | Inr result \<Rightarrow> if rows result = [] then res = not_found else status res \<noteq> 404"
        by blast
      from not_found_iff[OF this ok] obtain result where
        r: "new_calls s s' = [QueryCall ?sql (map (get b) ?cols @ [parseInt E i]) (Inr result)]"
           "(status res = 404) = (length (rows result) = 0)"
           "status res = 404 \<longrightarrow> res = not_found"
        by blast
      from r(1,2) have sent: "let cols = ?cols in \<exists>result. new_calls s s' =
                        [QueryCall
                           (''UPDATE users SET '' @
                  join '', '' (map (\<lambda>(c, k). c @ '' = $'' @ show_nat k)
                                   (zip cols [1..<Suc (length cols)])) @
                  '' WHERE id = $'' @ show_nat (Suc (length cols)) @ '' RETURNING *'')
                           (map (get b) cols @ [parseInt E i]) (Inr result)]
                      \<and> (status res = 404) = (length (rows result) = 0)"
        unfolding Let_def by blast
      from r(3) have nf: "status res = 404 \<longrightarrow>
               body res = Failure (Text ''User not found'') None \<and> user_field (body res) = None"
        by (auto simp: not_found_def)
      from p have rtp: "rt \<noteq> GetUser i" "rt \<noteq> DeleteUser i" by simp_all
      from True sent nf rtp show ?thesis
        by (simp only: if_True simp_thms)
    next
      case False
      from put_user_refuses[OF pu False] have q: "new_calls s s' = []" "status res = 400"
        by (simp_all add: new_calls_same)
      from p have rtp: "rt \<noteq> GetUser i" "rt \<noteq> DeleteUser i" by simp_all
      from q have nf: "status res = 404 \<longrightarrow>
               body res = Failure (Text ''User not found'') None \<and> user_field (body res) = None"
        by simp
      from False q nf rtp show ?thesis
        by (simp only: if_False simp_thms)
    qed
  qed
qed

theorem user_not_found_witness:
  "dispatch quiet fresh (GetUser ''7'') (JObj []) ''2026-01-01T00:00:00.000Z'' =
     (not_found,
      \<lparr>store = 1,
       trace = [QueryCall ''SELECT * FROM users WHERE id = $1'' [JNum 7]
                  (Inr \<lparr>rows = [], result_fields = None\<rparr>)]\<rparr>)
   \<and> dispatch quiet fresh (DeleteUser ''7'') (JObj []) ''2026-01-01T00:00:00.000Z'' =
     (not_found,
      \<lparr>store = 1,
       trace = [QueryCall ''DELETE FROM users WHERE id = $1 RETURNING *'' [JNum 7]
                  (Inr \<lparr>rows = [], result_fields = None\<rparr>)]\<rparr>)
   \<and> dispatch quiet fresh (PutUser ''7'') (JObj [(''name'', JStr ''Jane Doe'')])
         ''2026-01-01T00:00:00.000Z'' =
     (not_found,
      \<lparr>store = 1,
       trace = [QueryCall ''UPDATE users SET name = $1 WHERE id = $2 RETURNING *''
                  [JStr ''Jane Doe'', JNum 7] (Inr \<lparr>rows = [], result_fields = None\<rparr>)]\<rparr>)
   \<and> dispatch (one_table ''CREATE TABLE t (a integer);'' []) fresh (GetUser ''7'') (JObj [])
         ''2026-01-01T00:00:00.000Z'' =
     (\<lparr>status = 500, body = Failure (Text ''unexpected statement'') None\<rparr>,
      \<lparr>store = 1,
       trace = [QueryCall ''SELECT * FROM users WHERE id = $1'' [JNum 7]
                  (Inl (EngineError ''unexpected statement'' None))]\<rparr>)
   \<and> status not_found = 404
   \<and> body not_found = Failure (Text ''User not found'') None
   \<and> user_field (body not_found) = None"
proof -
  let ?now = "''2026-01-01T00:00:00.000Z''"
  let ?g = "\<lparr>store = 1,
       trace = [QueryCall ''SELECT * FROM users WHERE id = $1'' [JNum 7]
                  (Inr \<lparr>rows = [], result_fields = None\<rparr>)]\<rparr> :: nat session"
  let ?d = "\<lparr>store = 1,
       trace = [QueryCall ''DELETE FROM users WHERE id = $1 RETURNING *'' [JNum 7]
                  (Inr \<lparr>rows = [], result_fields = None\<rparr>)]\<rparr> :: nat session"
  let ?p = "\<lparr>store = 1,
       trace = [QueryCall ''UPDATE users SET name = $1 WHERE id = $2 RETURNING *''
                  [JStr ''Jane Doe'', JNum 7] (Inr \<lparr>rows = [], result_fields = None\<rparr>)]\<rparr> :: nat session"
  have rg: "GetUser ''7'' \<in> {GetUser ''7'', PutUser ''7'', DeleteUser ''7''}" by simp
  have rd: "DeleteUser ''7'' \<in> {GetUser ''7'', PutUser ''7'', DeleteUser ''7''}" by simp
  have rp: "PutUser ''7'' \<in> {GetUser ''7'', PutUser ''7'', DeleteUser ''7''}" by simp
  have g: "dispatch quiet fresh (GetUser ''7'') (JObj []) ?now = (not_found, ?g)"
    by code_simp
  have d: "dispatch quiet fresh (DeleteUser ''7'') (JObj []) ?now = (not_found, ?d)"
    by code_simp
  have p: "dispatch quiet fresh (PutUser ''7'') (JObj [(''name'', JStr ''Jane Doe'')]) ?now =
             (not_found, ?p)"
    by code_simp
  have e: "dispatch (one_table ''CREATE TABLE t (a integer);'' []) fresh (GetUser ''7'') (JObj [])
         ?now =
     (\<lparr>status = 500, body = Failure (Text ''unexpected statement'') None\<rparr>,
      \<lparr>store = 1,
       trace = [QueryCall ''SELECT * FROM users WHERE id = $1'' [JNum 7]
                  (Inl (EngineError ''unexpected statement'' None))]\<rparr>)"
    by code_simp
  have okg: "\<forall>c\<in>set (new_calls fresh ?g). call_ok c" by (simp add: new_calls_def fresh_def)
  have okd: "\<forall>c\<in>set (new_calls fresh ?d). call_ok c" by (simp add: new_calls_def fresh_def)
  have okp: "\<forall>c\<in>set (new_calls fresh ?p). call_ok c" by (simp add: new_calls_def fresh_def)
  have s: "status not_found = 404" by (simp add: not_found_def)
  from user_not_found_iff_no_rows[OF rg g okg] user_not_found_iff_no_rows[OF rd d okd]
    user_not_found_iff_no_rows[OF rp p okp] s g d p e
  show ?thesis by blast
qed

text \<open>
  C5. A PUT \<^verbatim>\<open>/users/:id\<close> either makes no call, or makes one \<^verbatim>\<open>UPDATE\<close> whose \<^verbatim>\<open>SET\<close>
  clause assigns, numbered from \<^verbatim>\<open>$1\<close>, only columns among \<^verbatim>\<open>name\<close> and \<^verbatim>\<open>email\<close> that are
  present in the body, bound to the values the body gives them, with the id as the last
  parameter. When the body supplies neither field the answer is 400 and the session is
  unchanged: no statement reached the engine.
\<close>

theorem update_sets_only_supplied_fields:
  assumes run: "put_user E s i b = (res, s')"
  shows "(new_calls s s' = [] \<or>
          (\<exists>cols r. cols \<noteq> [] \<and> set cols \<subseteq> {''name'', ''email''}
             \<and> (\<forall>c\<in>set cols. get b c \<noteq> JUndefined)
             \<and> new_calls s s' =
                 [QueryCall
                    (''UPDATE users SET '' @
                       join '', '' (map (\<lambda>(c, k). c @ '' = $'' @ show_nat k)
                                        (zip cols [1..<Suc (length cols)])) @
                       '' WHERE id = $'' @ show_nat (Suc (length cols)) @ '' RETURNING *'')
                    (map (get b) cols @ [parseInt E i]) r]))
         \<and> (get b ''name'' = JUndefined \<and> get b ''email'' = JUndefined
              \<longrightarrow> status res = 400 \<and> s' = s)"
proof -
  let ?cols = "filter (\<lambda>c. truthy (get b c)) [''name'', ''email'']"
  have present: "\<forall>c\<in>set ?cols. get b c \<noteq> JUndefined"
    by auto
  have sub: "set ?cols \<subseteq> {''name'', ''email''}" by auto
  show ?thesis
  proof (cases "is_ok (parse (email_re E) userUpdateSchema b)
                \<and> (truthy (get b ''name'') \<or> truthy (get b ''email''))")
    case True
    then have y: "is_ok (parse (email_re E) userUpdateSchema b)"
      "truthy (get b ''name'') \<or> truthy (get b ''email'')" by simp_all
    from y(2) have ne: "?cols \<noteq> []" by auto
    from put_user_sends[OF run y refl] obtain r where
      "new_calls s s' =
         [QueryCall
            (''UPDATE users SET '' @
               join '', '' (map (\<lambda>(c, k). c @ '' = $'' @ show_nat k)
                                (zip ?cols [1..<Suc (length ?cols)])) @
               '' WHERE id = $'' @ show_nat (Suc (length ?cols)) @ '' RETURNING *'')
            (map (get b) ?cols @ [parseInt E i]) r]"
      by blast
    with ne sub present have "\<exists>cols r. cols \<noteq> [] \<and> set cols \<subseteq> {''name'', ''email''}
             \<and> (\<forall>c\<in>set cols. get b c \<noteq> JUndefined)
             \<and> new_calls s s' =
                 [QueryCall
                    (''UPDATE users SET '' @
                       join '', '' (map (\<lambda>(c, k). c @ '' = $'' @ show_nat k)
                                        (zip cols [1..<Suc (length cols)])) @
                       '' WHERE id = $'' @ show_nat (Suc (length cols)) @ '' RETURNING *'')
                    (map (get b) cols @ [parseInt E i]) r]"
      by blast
    moreover from y(2) have "\<not> (get b ''name'' = JUndefined \<and> get b ''email'' = JUndefined)"
      by auto
    ultimately show ?thesis by blast
  next
    case False
    from put_user_refuses[OF run False] show ?thesis by (simp add: new_calls_same)
  qed
qed

theorem update_sets_only_supplied_fields_witness:
  "put_user quiet fresh ''1'' (JObj [(''name'', JStr ''Jane Doe'')]) =
     (not_found,
      \<lparr>store = 1,
       trace = [QueryCall ''UPDATE users SET name = $1 WHERE id = $2 RETURNING *''
                  [JStr ''Jane Doe'', JNum 1] (Inr \<lparr>rows = [], result_fields = None\<rparr>)]\<rparr>)
   \<and> (\<exists>cols r. cols \<noteq> [] \<and> set cols \<subseteq> {''name'', ''email''}
          \<and> (\<forall>c\<in>set cols. get (JObj [(''name'', JStr ''Jane Doe'')]) c \<noteq> JUndefined)
          \<and> new_calls fresh
               \<lparr>store = 1,
                trace = [QueryCall ''UPDATE users SET name = $1 WHERE id = $2 RETURNING *''
                           [JStr ''Jane Doe'', JNum 1] (Inr \<lparr>rows = [], result_fields = None\<rparr>)]\<rparr> =
              [QueryCall
                 (''UPDATE users SET '' @
                    join '', '' (map (\<lambda>(c, k). c @ '' = $'' @ show_nat k)
                                     (zip cols [1..<Suc (length cols)])) @
                    '' WHERE id = $'' @ show_nat (Suc (length cols)) @ '' RETURNING *'')
                 (map (get (JObj [(''name'', JStr ''Jane Doe'')])) cols @ [parseInt quiet ''1'']) r])
   \<and> put_user quiet fresh ''1'' (JObj []) =
       (\<lparr>status = 400, body = Failure (Text ''No fields to update'') None\<rparr>, fresh)"
proof -
  let ?after = "\<lparr>store = 1,
       trace = [QueryCall ''UPDATE users SET name = $1 WHERE id = $2 RETURNING *''
                  [JStr ''Jane Doe'', JNum 1] (Inr \<lparr>rows = [], result_fields = None\<rparr>)]\<rparr>"
  have run: "put_user quiet fresh ''1'' (JObj [(''name'', JStr ''Jane Doe'')]) = (not_found, ?after)"
    by code_simp
  have called: "new_calls fresh ?after \<noteq> []"
    by (simp add: new_calls_def fresh_def)
  have empty: "put_user quiet fresh ''1'' (JObj []) =
       (\<lparr>status = 400, body = Failure (Text ''No fields to update'') None\<rparr>, fresh)"
    by code_simp
  from update_sets_only_supplied_fields[OF run] called run empty show ?thesis
    by blast
qed

section \<open>Export\<close>

text \<open>
  One \<^verbatim>\<open>INSERT\<close> line per row, in row order; in a line a text is quoted with its quotes
  doubled, \<^verbatim>\<open>null\<close> and \<^verbatim>\<open>undefined\<close> leave nothing, and any other value is written as
  \<^verbatim>\<open>String\<close> gives it.
\<close>

lemma append_rows_concat:
  "append_rows t rs dump = dump @ concat (map (insert_stmt t) rs)"
  by (induction rs arbitrary: dump) simp_all

lemma emitted_values:
  "insert_stmt t r =
     ''INSERT INTO '' @ to_string t @ '' VALUES ('' @
       join '', '' (map (\<lambda>v. case v of JStr s \<Rightarrow> SQ @ double_quotes s @ SQ
                                | JNull \<Rightarrow> [] | JUndefined \<Rightarrow> [] | _ \<Rightarrow> to_string v) (map snd r)) @
       '');'' @ NL"
proof -
  have "\<And>v. (if sql_literal v = JUndefined \<or> sql_literal v = JNull then []
              else to_string (sql_literal v)) =
        (case v of JStr s \<Rightarrow> SQ @ double_quotes s @ SQ
                                | JNull \<Rightarrow> [] | JUndefined \<Rightarrow> [] | _ \<Rightarrow> to_string v)"
    subgoal for v by (cases v) simp_all
    done
  then show ?thesis
    by (simp add: insert_stmt_def js_join_def comp_def del: to_string.simps)
qed

lemma double_quotes_append: "double_quotes (a @ b) = double_quotes a @ double_quotes b"
  by (simp add: double_quotes_def)

lemma double_quotes_quote: "double_quotes (CHR 0x27 # s) = CHR 0x27 # CHR 0x27 # double_quotes s"
  by (simp add: double_quotes_def SQ_def)

lemma double_quotes_other: "c \<noteq> CHR 0x27 \<Longrightarrow> double_quotes (c # s) = c # double_quotes s"
  by (simp add: double_quotes_def)

lemma objects_export_alike:
  "insert_stmt t [(c, JObj x)] = insert_stmt t [(c, JObj y)]"
  by (simp add: insert_stmt_def js_join_def)

text \<open>
  So two stores whose table differs only in the object held by one field are exported to
  the same dump, whatever the objects are.
\<close>

lemma object_rows_export_alike:
  "body (fst (get_export (one_table c [[(''j'', JObj x)]]) fresh now)) =
   body (fst (get_export (one_table c [[(''j'', JObj y)]]) fresh now))"
  by code_simp

text \<open>
  C7 at the row \<^verbatim>\<open>{a: 1, b: null}\<close>: the \<^verbatim>\<open>null\<close> is written as nothing, although its
  textual form is \<^verbatim>\<open>null\<close>, and the line is \<^verbatim>\<open>INSERT INTO t VALUES (1, );\<close>.
\<close>

theorem null_not_in_textual_form:
  "insert_stmt (JStr ''t'') [(''a'', JNum 1), (''b'', JNull)] = ''INSERT INTO t VALUES (1, );'' @ NL
   \<and> js_join '', '' (map sql_literal [JNum 1, JNull]) = ''1, ''
   \<and> to_string JNull = ''null''"
  by code_simp

text \<open>
  C4 at a store whose only table \<^verbatim>\<open>t (a integer, b text)\<close> holds the row \<^verbatim>\<open>(1, NULL)\<close>: the
  dump that GET /export sends, which POST /import would then be given to replay.
\<close>

theorem export_of_null_value:
  "body (fst (get_export
       (one_table ''CREATE TABLE t (a integer, b text);'' [[(''a'', JNum 1), (''b'', JNull)]])
       fresh ''2026-01-01T00:00:00.000Z'')) =
     SqlDump (''-- PGlite Database Export'' @ NL @
              ''-- Generated: 2026-01-01T00:00:00.000Z'' @ NL @ NL @
              ''CREATE TABLE t (a integer, b text);'' @ NL @ NL @
              ''INSERT INTO t VALUES (1, );'' @ NL @ NL)"
  by code_simp

section \<open>What a validated body holds\<close>

text \<open>
  After a successful parse the handlers read texts and parameter lists out of the validated
  value. These lemmas show that the value has the shape the handlers rely on, so that the
  last equations of \<open>text_of\<close>, \<open>params_of\<close> and \<open>elements_of\<close> are not reached.
\<close>

lemma collect_obj_Inr:
  "collect_obj krs = Inr p \<Longrightarrow>
     p = JObj (filter (\<lambda>(k, v). v \<noteq> JUndefined) (map (\<lambda>(k, r). (k, value_of r)) krs))
     \<and> list_all (\<lambda>(k, r). is_ok r) krs"
  by (auto simp: collect_obj_def split: if_splits)

lemma collect_arr_Inr:
  "collect_arr rs = Inr p \<Longrightarrow> p = JArr (map value_of rs) \<and> list_all is_ok rs"
  by (auto simp: collect_arr_def split: if_splits)

lemma string_min1:
  "parse re (ZString [Min 1]) v = Inr w \<Longrightarrow> \<exists>t. v = JStr t \<and> w = JStr t \<and> t \<noteq> []"
  by (cases v) (auto split: if_splits simp: Let_def)

lemma string_plain:
  "parse re (ZString []) v = Inr w \<Longrightarrow> \<exists>t. v = JStr t \<and> w = JStr t"
  by (cases v) (auto split: if_splits simp: Let_def)

lemma optional_params:
  "parse re (ZOptional (ZArray ZAny)) v = Inr w \<Longrightarrow>
     w = v \<and> (v = JUndefined \<or> (\<exists>ps. v = JArr ps))"
proof (cases v)
  case (JArr vs)
  assume "parse re (ZOptional (ZArray ZAny)) v = Inr w"
  with JArr have "collect_arr (map (parse re ZAny) vs) = Inr w" by simp
  moreover have "map (parse re ZAny) vs = map Inr vs" by simp
  ultimately have "collect_arr (map Inr vs) = Inr w" by simp
  from collect_arr_Inr[OF this] JArr show ?thesis by (simp add: comp_def)
qed (auto split: if_splits)

lemma is_ok_Inr: "is_ok r \<Longrightarrow> \<exists>v. r = Inr v"
  by (cases r) simp_all

lemma entry_fields:
  assumes "parse re (ZObject [(''query'', ZString []), (''params'', ZOptional (ZArray ZAny))]) e = Inr p"
  shows "(\<exists>t. get p ''query'' = JStr t \<and> get e ''query'' = JStr t)
         \<and> get p ''params'' = get e ''params''
         \<and> (get p ''params'' = JUndefined \<or> (\<exists>ps. get p ''params'' = JArr ps))"
proof (cases e)
  case (JObj kvs)
  let ?q = "parse re (ZString []) (get_prop kvs ''query'')"
  let ?p = "parse re (ZOptional (ZArray ZAny)) (get_prop kvs ''params'')"
  from assms JObj have c: "collect_obj [(''query'', ?q), (''params'', ?p)] = Inr p"
    by (simp only: parse.simps(4) jsval.case list.map prod.case)
  from collect_obj_Inr[OF c] have ok: "is_ok ?q" "is_ok ?p"
    and p: "p = JObj (filter (\<lambda>(k, v). v \<noteq> JUndefined) [(''query'', value_of ?q), (''params'', value_of ?p)])"
    by simp_all
  from ok obtain vq vp where v: "?q = Inr vq" "?p = Inr vp"
    by (metis is_ok_Inr)
  from string_plain[OF v(1)] optional_params[OF v(2)] p v JObj show ?thesis
    by (auto simp: get_prop_def)
qed (use assms in simp_all)

lemma query_fields:
  assumes "parse re querySchema b = Inr p"
  shows "(\<exists>t. get p ''query'' = JStr t \<and> t \<noteq> [] \<and> get b ''query'' = JStr t)
         \<and> get p ''params'' = get b ''params''
         \<and> (get p ''params'' = JUndefined \<or> (\<exists>ps. get p ''params'' = JArr ps))"
proof (cases b)
  case (JObj kvs)
  let ?q = "parse re (ZString [Min 1]) (get_prop kvs ''query'')"
  let ?p = "parse re (ZOptional (ZArray ZAny)) (get_prop kvs ''params'')"
  from assms JObj have c: "collect_obj [(''query'', ?q), (''params'', ?p)] = Inr p"
    by (simp only: querySchema_def parse.simps(4) jsval.case list.map prod.case)
  from collect_obj_Inr[OF c] have ok: "is_ok ?q" "is_ok ?p"
    and p: "p = JObj (filter (\<lambda>(k, v). v \<noteq> JUndefined) [(''query'', value_of ?q), (''params'', value_of ?p)])"
    by simp_all
  from ok obtain vq vp where v: "?q = Inr vq" "?p = Inr vp"
    by (metis is_ok_Inr)
  from string_min1[OF v(1)] optional_params[OF v(2)] p v JObj show ?thesis
    by (auto simp: get_prop_def)
qed (use assms in \<open>simp_all add: querySchema_def\<close>)

lemma import_fields:
  assumes "parse re importSchema b = Inr p"
  shows "\<exists>t. get p ''sql'' = JStr t \<and> t \<noteq> [] \<and> get b ''sql'' = JStr t"
proof (cases b)
  case (JObj kvs)
  let ?q = "parse re (ZString [Min 1]) (get_prop kvs ''sql'')"
  from assms JObj have c: "collect_obj [(''sql'', ?q)] = Inr p"
    by (simp only: importSchema_def parse.simps(4) jsval.case list.map prod.case)
  from collect_obj_Inr[OF c] have ok: "is_ok ?q"
    and p: "p = JObj (filter (\<lambda>(k, v). v \<noteq> JUndefined) [(''sql'', value_of ?q)])"
    by simp_all
  from ok obtain vq where v: "?q = Inr vq"
    by (metis is_ok_Inr)
  from string_min1[OF v] p v JObj show ?thesis
    by (auto simp: get_prop_def)
qed (use assms in \<open>simp_all add: importSchema_def\<close>)

lemma transaction_fields:
  assumes "parse re transactionSchema b = Inr p"
  shows "\<exists>es. get p ''queries'' = JArr es
           \<and> length es = length (elements_of (get b ''queries''))
           \<and> (\<forall>e\<in>set es. (\<exists>t. get e ''query'' = JStr t)
                 \<and> (get e ''params'' = JUndefined \<or> (\<exists>ps. get e ''params'' = JArr ps)))"
proof (cases b)
  case (JObj kvs)
  let ?entry = "ZObject [(''query'', ZString []), (''params'', ZOptional (ZArray ZAny))]"
  let ?q = "parse re (ZArray ?entry) (get_prop kvs ''queries'')"
  from assms JObj have c: "collect_obj [(''queries'', ?q)] = Inr p"
    by (simp only: transactionSchema_def parse.simps(4) jsval.case list.map prod.case)
  from collect_obj_Inr[OF c] have ok: "is_ok ?q"
    and p: "p = JObj (filter (\<lambda>(k, v). v \<noteq> JUndefined) [(''queries'', value_of ?q)])"
    by simp_all
  from ok obtain vq where v: "?q = Inr vq"
    by (metis is_ok_Inr)
  then obtain vs where vs: "get_prop kvs ''queries'' = JArr vs"
    by (cases "get_prop kvs ''queries''") simp_all
  with v have "collect_arr (map (parse re ?entry) vs) = Inr vq"
    by (simp del: parse.simps add: parse.simps(3))
  from collect_arr_Inr[OF this] have vq: "vq = JArr (map value_of (map (parse re ?entry) vs))"
    and oks: "list_all is_ok (map (parse re ?entry) vs)"
    by simp_all
  have "\<forall>e\<in>set (map value_of (map (parse re ?entry) vs)).
          (\<exists>t. get e ''query'' = JStr t)
          \<and> (get e ''params'' = JUndefined \<or> (\<exists>ps. get e ''params'' = JArr ps))"
  proof
    fix e assume "e \<in> set (map value_of (map (parse re ?entry) vs))"
    then obtain x where x: "x \<in> set vs" "e = value_of (parse re ?entry x)"
      by auto
    with oks have "is_ok (parse re ?entry x)"
      by (simp add: list_all_iff del: parse.simps)
    then obtain w where w: "parse re ?entry x = Inr w"
      by (metis is_ok_Inr)
    from x w have "e = w" by (simp del: parse.simps)
    with entry_fields[OF w] show "(\<exists>t. get e ''query'' = JStr t)
          \<and> (get e ''params'' = JUndefined \<or> (\<exists>ps. get e ''params'' = JArr ps))"
      by blast
  qed
  with p v vq vs JObj show ?thesis
    by (simp add: get_prop_def del: parse.simps)
qed (use assms in \<open>simp_all add: transactionSchema_def\<close>)

section \<open>A result that cannot be serialised\<close>

text \<open>
  A row that holds a \<^verbatim>\<open>BigInt\<close> makes \<^verbatim>\<open>res.json\<close> throw inside the \<^verbatim>\<open>try\<close>. POST /query then
  answers 400 from its \<^verbatim>\<open>catch\<close>, and POST /transaction, whose \<^verbatim>\<open>COMMIT\<close> has already
  succeeded, sends a \<^verbatim>\<open>ROLLBACK\<close> and answers 400.
\<close>

lemma unserialisable_query_result:
  "post_query
     (scripted (\<lambda>sql params. Inr \<lparr>rows = [[(''n'', JBigInt 9007199254740993)]],
                                      result_fields = None\<rparr>) (\<lambda>sql. Inr ()))
     fresh (JObj [(''query'', JStr ''SELECT n FROM t'')]) =
   (\<lparr>status = 400,
     body = Failure (Text ''Do not know how to serialize a BigInt'') (Some JUndefined)\<rparr>,
    \<lparr>store = 1,
     trace = [QueryCall ''SELECT n FROM t'' []
                (Inr \<lparr>rows = [[(''n'', JBigInt 9007199254740993)]], result_fields = None\<rparr>)]\<rparr>)"
  by code_simp

lemma unserialisable_transaction_result:
  "post_transaction
     (scripted (\<lambda>sql params. Inr \<lparr>rows = [[(''n'', JBigInt 9007199254740993)]],
                                      result_fields = None\<rparr>) (\<lambda>sql. Inr ()))
     fresh (JObj [(''queries'', JArr [JObj [(''query'', JStr ''SELECT n FROM t'')]])]) =
   (\<lparr>status = 400, body = Failure (Text ''Do not know how to serialize a BigInt'') None\<rparr>,
    \<lparr>store = 4,
     trace = [ExecCall ''BEGIN'' (Inr ()),
              QueryCall ''SELECT n FROM t'' []
                (Inr \<lparr>rows = [[(''n'', JBigInt 9007199254740993)]], result_fields = None\<rparr>),
              ExecCall ''COMMIT'' (Inr ()),
              ExecCall ''ROLLBACK'' (Inr ())]\<rparr>)"
  by code_simp

lemma number_range: "- (2 ^ 53) \<le> sint w \<and> sint w < 2 ^ 53" for w :: "54 word"
  using sint_ge[of w] sint_lt[of w] by simp

section \<open>The other side of the startup and body size models\<close>

text \<open>
  A JSON body within the limit reaches the handler of its route, and a host on which every
  step succeeds ends with the listener bound and no exit.
\<close>

lemma within_limit_reaches_router:
  "json_typed req \<Longrightarrow> body_length req \<le> 10 * 1024 * 1024 \<Longrightarrow> json_body req = Some b \<Longrightarrow>
     app E s req = dispatch E s (route req) b (clock req)"
  by (simp add: app_def express_json_def json_limit_def)

lemma healthy_host_listens:
  "write_ok h \<Longrightarrow> rm_ok h \<Longrightarrow> open_ok h \<Longrightarrow> schema_ok h \<Longrightarrow> \<not> listen_throws h \<Longrightarrow>
     dir_exists h \<or> mkdir_ok h \<Longrightarrow> last (main h) = Listen \<and> (\<forall>n. Exit n \<notin> set (main h))"
  by (auto simp: main_def startServer_def initDB_def)

end
